theory Spec2Isabelle
  imports Main
begin

section \<open>JavaScript values\<close>

text \<open>
  The handlers are TypeScript, so at run time every argument, response body and result
  is a dynamically typed JavaScript value. Numbers are modelled as integers: the tools use
  them as page limits, counts and status codes only, and the model covers the safe
  integers (below \<open>2^53\<close> in magnitude), which print as their decimal digits. An object
  is the list of its own properties in insertion order; as a value parsed from JSON it
  has no callable property.
\<close>

datatype js = Undefined | Null | JBool bool | JNum int | JStr string
  | JArr "js list" | JObj "(string \<times> js) list"

text \<open>What a \<^verbatim>\<open>throw\<close> (or a rejected promise) carries.
  \<^item> \<open>AxiosError message response\<close>: the error axios rejects with; it is an \<^verbatim>\<open>Error\<close>,
    \<^verbatim>\<open>isAxiosError\<close> holds for it, and \<open>response\<close> is present when the server answered.
  \<^item> \<open>JsError message\<close>: any other \<^verbatim>\<open>Error\<close> instance (TypeError, SyntaxError, ...).
  \<^item> \<open>NonError v\<close>: a thrown value that is not an \<^verbatim>\<open>Error\<close>.\<close>

record response =
  status :: int
  statusText :: string
  data :: js

datatype thrown = AxiosError string "response option" | JsError string | NonError js

definition TypeError :: thrown where
  "TypeError = JsError ''TypeError''"

fun truthy :: "js \<Rightarrow> bool" where
  "truthy Undefined = False"
| "truthy Null = False"
| "truthy (JBool b) = b"
| "truthy (JNum n) = (n \<noteq> 0)"
| "truthy (JStr s) = (s \<noteq> [])"
| "truthy (JArr xs) = True"
| "truthy (JObj kvs) = True"

text \<open>\<^verbatim>\<open>a || b\<close>\<close>

definition or_else :: "js \<Rightarrow> js \<Rightarrow> js" where
  "or_else a b = (if truthy a then a else b)"

definition nullish :: "js \<Rightarrow> bool" where
  "nullish v = (v = Undefined \<or> v = Null)"

text \<open>Reading an own property of an object; absent properties read as \<^verbatim>\<open>undefined\<close>.\<close>

fun lookup :: "(string \<times> js) list \<Rightarrow> string \<Rightarrow> js" where
  "lookup [] k = Undefined"
| "lookup ((k', v) # kvs) k = (if k' = k then v else lookup kvs k)"

text \<open>\<^verbatim>\<open>v?.k\<close>: optional chaining never throws. Only the data properties of objects are
  modelled; primitives and arrays have none of the names the tools read.\<close>

fun oget :: "js \<Rightarrow> string \<Rightarrow> js" where
  "oget (JObj kvs) k = lookup kvs k"
| "oget v k = Undefined"

text \<open>\<^verbatim>\<open>v.k\<close>: throws a TypeError on \<^verbatim>\<open>undefined\<close> and \<^verbatim>\<open>null\<close>.\<close>

definition get :: "js \<Rightarrow> string \<Rightarrow> thrown + js" where
  "get v k = (if nullish v then Inl TypeError else Inr (oget v k))"

subsection \<open>Conversion to string\<close>

fun digits :: "nat \<Rightarrow> string" where
  "digits n = (if n < 10 then [''0123456789'' ! n]
               else digits (n div 10) @ [''0123456789'' ! (n mod 10)])"

declare digits.simps [simp del]

fun join :: "string \<Rightarrow> string list \<Rightarrow> string" where
  "join sep [] = []"
| "join sep [x] = x"
| "join sep (x # y # ys) = x @ sep @ join sep (y # ys)"

text \<open>The string that the conversion \<^verbatim>\<open>ToString\<close> gives for a value it converts. It is what
  \<^verbatim>\<open>String(v)\<close>, a template literal, \<^verbatim>\<open>replace\<close>, \<^verbatim>\<open>RegExp.test\<close> and
  \<^verbatim>\<open>URLSearchParams.append\<close> apply to a value, and it is used as it stands where the
  value is a string, number or boolean by its declared type.\<close>

fun to_str :: "js \<Rightarrow> string" where
  "to_str Undefined = ''undefined''"
| "to_str Null = ''null''"
| "to_str (JBool b) = (if b then ''true'' else ''false'')"
| "to_str (JNum n) = (if n < 0 then ''-'' @ digits (nat (- n)) else digits (nat n))"
| "to_str (JStr s) = s"
| "to_str (JArr xs) = join '','' (map (\<lambda>x. if x = Undefined \<or> x = Null then [] else to_str x) xs)"
| "to_str (JObj kvs) = ''[object Object]''"

text \<open>\<^verbatim>\<open>v.toString()\<close> is a method call, so it throws on \<^verbatim>\<open>undefined\<close> and \<^verbatim>\<open>null\<close>.\<close>

definition toString :: "js \<Rightarrow> thrown + string" where
  "toString v = (if nullish v then Inl TypeError else Inr (to_str v))"

text \<open>\<^verbatim>\<open>ToString\<close> of a value of unknown type. An object with an own \<^verbatim>\<open>toString\<close> property
  (which is not callable) has no primitive value: neither that property nor \<^verbatim>\<open>valueOf\<close>
  gives one, and the conversion throws a TypeError. Any other object converts by
  \<^verbatim>\<open>Object.prototype.toString\<close>, and an array converts its elements in turn.\<close>

fun printable :: "js \<Rightarrow> bool" where
  "printable (JObj kvs) = (''toString'' \<notin> fst ` set kvs)"
| "printable (JArr xs) = list_all printable xs"
| "printable v = True"

definition ToString :: "js \<Rightarrow> thrown + string" where
  "ToString v = (if printable v then Inr (to_str v) else Inl TypeError)"

text \<open>The text that replaces the match in \<^verbatim>\<open>s.replace(pat, rep)\<close> with a string pattern: in
  \<open>rep\<close>, \<^verbatim>\<open>$$\<close> stands for a dollar sign, \<^verbatim>\<open>$&\<close> for the matched text, \<^verbatim>\<open>$\<close> with a
  backquote for the text before the match and \<^verbatim>\<open>$\<close> with a quote for the text after it.
  A string pattern has no groups, so any other \<^verbatim>\<open>$\<close> stands for itself.\<close>

fun substitution :: "string \<Rightarrow> string \<Rightarrow> string \<Rightarrow> string \<Rightarrow> string" where
  "substitution (c # d # cs) matched before after =
     (if c = CHR ''$'' \<and> d = CHR ''$'' then CHR ''$'' # substitution cs matched before after
      else if c = CHR ''$'' \<and> d = CHR ''&'' then matched @ substitution cs matched before after
      else if c = CHR ''$'' \<and> d = CHR 0x60 then before @ substitution cs matched before after
      else if c = CHR ''$'' \<and> d = CHR 0x27 then after @ substitution cs matched before after
      else c # substitution (d # cs) matched before after)"
| "substitution cs matched before after = cs"

text \<open>\<^verbatim>\<open>s.replace(pat, rep)\<close> with a string pattern: the first occurrence only, and the
  string unchanged when there is none. \<open>before\<close> is the text already passed.\<close>

fun replace_after :: "string \<Rightarrow> string \<Rightarrow> string \<Rightarrow> string \<Rightarrow> string" where
  "replace_after before [] pat rep = (if pat = [] then substitution rep [] before [] else [])"
| "replace_after before (c # cs) pat rep =
     (if take (length pat) (c # cs) = pat
      then substitution rep pat before (drop (length pat) (c # cs)) @ drop (length pat) (c # cs)
      else c # replace_after (before @ [c]) cs pat rep)"

definition replace :: "string \<Rightarrow> string \<Rightarrow> string \<Rightarrow> string" where
  "replace s pat rep = replace_after [] s pat rep"

section \<open>The host: configuration, environment, HTTP client, regular expressions\<close>

text \<open>
  \<^verbatim>\<open>API_CONFIG\<close> lives in \<^verbatim>\<open>config.js\<close>, which is not part of the sources at hand: its
  constants are parameters of the model.
\<close>

record endpoints =
  IMPORTS :: string
  IMPORT_BY_ID :: string
  WEBSET_MONITORS :: string
  WEBSET_MONITOR_BY_ID :: string
  WEBSET_MONITOR_RUNS :: string
  WEBHOOKS :: string
  WEBHOOK_BY_ID :: string
  WEBHOOK_ATTEMPTS :: string
  EVENTS :: string
  EVENT_BY_ID :: string
  WEBSET_ITEMS :: string
  WEBSET_ITEM_BY_ID :: string
  WEBSET_EXPORTS :: string
  WEBSET_EXPORT_BY_ID :: string

record api_config =
  BASE_URL :: string
  REQUEST_TIMEOUT :: int
  ENDPOINTS :: endpoints

datatype http_method = GET | POST | PATCH | DELETE

text \<open>The query parameters as the handler hands them to axios: a \<^verbatim>\<open>URLSearchParams\<close>
  (string pairs in the order appended) or a plain object.\<close>

datatype query = NoParams | URLSearchParams "(string \<times> string) list" | ParamsObject "(string \<times> js) list"

text \<open>One HTTP call as the handler configures it. \<open>baseURL\<close> and \<open>timeout\<close> are \<open>None\<close>
  when the handler does not pass them to axios (axios then applies no timeout).\<close>

record request =
  verb :: http_method
  baseURL :: "string option"
  url :: string
  headers :: "(string \<times> string) list"
  params :: query
  body :: "js option"
  timeout :: "int option"

text \<open>The host a registration function closes over: \<^verbatim>\<open>config\<close> (optional, with an optional
  \<^verbatim>\<open>exaApiKey\<close>), \<^verbatim>\<open>process.env.EXA_API_KEY\<close>, \<^verbatim>\<open>API_CONFIG\<close>, the remote service behind
  axios (a call resolves with a response or rejects), and the engine's \<^verbatim>\<open>RegExp\<close>
  constructor (pattern, flags), which throws on a malformed pattern and otherwise gives
  the \<^verbatim>\<open>test\<close> function of the compiled expression.\<close>

record host =
  config :: "string option option"
  EXA_API_KEY :: "string option"
  API_CONFIG :: api_config
  axios :: "request \<Rightarrow> thrown + response"
  RegExp :: "string \<Rightarrow> string \<Rightarrow> thrown + (string \<Rightarrow> bool)"

text \<open>\<^verbatim>\<open>config?.exaApiKey || process.env.EXA_API_KEY || ''\<close>\<close>

definition api_key :: "host \<Rightarrow> string" where
  "api_key h =
     (let configured = (case config h of None \<Rightarrow> [] | Some None \<Rightarrow> [] | Some (Some k) \<Rightarrow> k);
          env = (case EXA_API_KEY h of None \<Rightarrow> [] | Some k \<Rightarrow> k)
      in if configured \<noteq> [] then configured else if env \<noteq> [] then env else [])"

section \<open>The shape of a handler\<close>

text \<open>
  Every handler is \<^verbatim>\<open>try { build the request; await axios; return a result } catch (error) { ... }\<close>.
  A run is the pair of what came out and the list of HTTP requests issued, in order.
\<close>

type_synonym 'a run = "'a \<times> request list"

definition attempt ::
  "thrown + request \<Rightarrow> host \<Rightarrow> (response \<Rightarrow> thrown + 'a) \<Rightarrow> (thrown + 'a) run" where
  "attempt build h finish =
     (case build of
        Inl e \<Rightarrow> (Inl e, [])
      | Inr req \<Rightarrow>
          (case axios h req of
             Inl e \<Rightarrow> (Inl e, [req])
           | Inr resp \<Rightarrow> (finish resp, [req])))"

text \<open>The \<^verbatim>\<open>catch\<close> block is code as well: it returns a result or throws in its turn, and
  what it throws nothing catches.\<close>

definition try_catch :: "(thrown + 'a) run \<Rightarrow> (thrown \<Rightarrow> thrown + 'a) \<Rightarrow> (thrown + 'a) run" where
  "try_catch block handler =
     (case fst block of Inl e \<Rightarrow> (handler e, snd block) | Inr r \<Rightarrow> (Inr r, snd block))"

text \<open>Sequencing of steps that may throw.\<close>

definition and_then :: "thrown + 'a \<Rightarrow> ('a \<Rightarrow> thrown + 'b) \<Rightarrow> thrown + 'b" where
  "and_then m f = (case m of Inl e \<Rightarrow> Inl e | Inr x \<Rightarrow> f x)"

text \<open>\<^verbatim>\<open>xs.filter(p)\<close> with a callback that may throw: the first throw ends the loop.\<close>

fun filter_js :: "(js \<Rightarrow> thrown + bool) \<Rightarrow> js list \<Rightarrow> thrown + js list" where
  "filter_js p [] = Inr []"
| "filter_js p (x # xs) =
     and_then (p x) (\<lambda>keep. and_then (filter_js p xs) (\<lambda>rest. Inr (if keep then x # rest else rest)))"

fun map_js :: "(js \<Rightarrow> thrown + js) \<Rightarrow> js list \<Rightarrow> thrown + js list" where
  "map_js f [] = Inr []"
| "map_js f (x # xs) = and_then (f x) (\<lambda>y. and_then (map_js f xs) (\<lambda>ys. Inr (y # ys)))"

text \<open>\<^verbatim>\<open>v.filter(...)\<close>, \<^verbatim>\<open>v.map(...)\<close> need an array: anything else has no such method.\<close>

definition as_array :: "js \<Rightarrow> thrown + js list" where
  "as_array v = (case v of JArr xs \<Rightarrow> Inr xs | _ \<Rightarrow> Inl TypeError)"

text \<open>\<^verbatim>\<open>v.length\<close>\<close>

definition length_of :: "js \<Rightarrow> thrown + js" where
  "length_of v =
     (case v of
        JArr xs \<Rightarrow> Inr (JNum (int (length xs)))
      | JStr s \<Rightarrow> Inr (JNum (int (length s)))
      | _ \<Rightarrow> get v ''length'')"

text \<open>\<^verbatim>\<open>...(v && { k: v })\<close> inside an object literal: the property is added when \<open>v\<close> is
  truthy, and spreading a falsy value adds nothing.\<close>

definition spread_if :: "string \<Rightarrow> js \<Rightarrow> (string \<times> js) list" where
  "spread_if k v = (if truthy v then [(k, v)] else [])"

section \<open>Results\<close>

text \<open>
  The tools registered with \<^verbatim>\<open>server.tool\<close> return \<^verbatim>\<open>{content: [{type: "text", text}], isError?}\<close>:
  \<open>ToolResult text isError\<close>, where the text is a string or \<^verbatim>\<open>JSON.stringify(v, null, 2)\<close>
  of a value (kept as the value). The tools registered with \<^verbatim>\<open>server.addTool\<close> return a
  plain object: \<open>Envelope properties\<close>.
\<close>

datatype content = Text string | Stringify js

datatype outcome = ToolResult content bool | Envelope "(string \<times> js) list"

text \<open>A handler is an \<^verbatim>\<open>async\<close> function: it resolves with an outcome (\<open>Inr\<close>) or
  rejects (\<open>Inl\<close>), which is what an exception escaping to the caller is.

  A handler whose parameter is a destructuring pattern, \<^verbatim>\<open>async ({ a, b }) => ...\<close>:
  the pattern is evaluated before the \<^verbatim>\<open>try\<close> and throws on \<^verbatim>\<open>undefined\<close> and \<^verbatim>\<open>null\<close>.\<close>

definition destructured :: "js \<Rightarrow> (thrown + outcome) run \<Rightarrow> (thrown + outcome) run" where
  "destructured args r = (if nullish args then (Inl TypeError, []) else r)"

text \<open>The \<^verbatim>\<open>error.response?.data\<close> of an axios error.\<close>

definition response_data :: "response option \<Rightarrow> js" where
  "response_data r = (case r of None \<Rightarrow> Undefined | Some resp \<Rightarrow> data resp)"

text \<open>The \<^verbatim>\<open>catch\<close> block of the \<^verbatim>\<open>server.addTool\<close> handlers (exports, item updates).\<close>

definition envelope_catch :: "thrown \<Rightarrow> thrown + outcome" where
  "envelope_catch error =
     (case error of
        AxiosError message resp \<Rightarrow>
          Inr (Envelope [(''success'', JBool False),
                         (''error'', or_else (oget (response_data resp) ''error'') (JStr message)),
                         (''details'', response_data resp)])
      | JsError message \<Rightarrow>
          Inr (Envelope [(''success'', JBool False), (''error'', JStr message)])
      | NonError v \<Rightarrow>
          Inr (Envelope [(''success'', JBool False), (''error'', JStr ''Unknown error occurred'')]))"

section \<open>Issuing a request\<close>

definition json_headers :: "host \<Rightarrow> (string \<times> string) list" where
  "json_headers h = [(''accept'', ''application/json''), (''x-api-key'', api_key h)]"

definition json_body_headers :: "host \<Rightarrow> (string \<times> string) list" where
  "json_body_headers h =
     [(''accept'', ''application/json''), (''content-type'', ''application/json''),
      (''x-api-key'', api_key h)]"

text \<open>\<^verbatim>\<open>axios.create({baseURL: API_CONFIG.BASE_URL, headers, timeout: API_CONFIG.REQUEST_TIMEOUT})\<close>
  followed by one call on that instance.\<close>

definition instance_call ::
  "host \<Rightarrow> (string \<times> string) list \<Rightarrow> http_method \<Rightarrow> string \<Rightarrow> query \<Rightarrow> js option \<Rightarrow> request" where
  "instance_call h hs m u q b =
     \<lparr>verb = m, baseURL = Some (BASE_URL (API_CONFIG h)), url = u, headers = hs,
      params = q, body = b, timeout = Some (REQUEST_TIMEOUT (API_CONFIG h))\<rparr>"

text \<open>One call on the axios default instance with the full URL and \<^verbatim>\<open>{ headers }\<close> (and
  \<^verbatim>\<open>params\<close> where given) as its only options.\<close>

definition direct_call ::
  "host \<Rightarrow> (string \<times> string) list \<Rightarrow> http_method \<Rightarrow> string \<Rightarrow> query \<Rightarrow> js option \<Rightarrow> request" where
  "direct_call h hs m u q b =
     \<lparr>verb = m, baseURL = None, url = BASE_URL (API_CONFIG h) @ u, headers = hs,
      params = q, body = b, timeout = None\<rparr>"

definition endpoint :: "host \<Rightarrow> (endpoints \<Rightarrow> string) \<Rightarrow> string" where
  "endpoint h name = name (ENDPOINTS (API_CONFIG h))"

section \<open>Export tools (websetExport.ts)\<close>

definition create_export_request :: "host \<Rightarrow> js \<Rightarrow> thrown + request" where
  "create_export_request h args =
     and_then (get args ''websetId'') (\<lambda>websetId.
       let u = replace (endpoint h WEBSET_EXPORTS) '':websetId'' (to_str websetId);
           body = JObj ([(''format'', oget args ''format'')]
                        @ spread_if ''filters'' (oget args ''filters'')
                        @ spread_if ''fields'' (oget args ''fields''))
       in Inr (direct_call h (json_body_headers h) POST u NoParams (Some body)))"

definition create_export_result :: "response \<Rightarrow> thrown + outcome" where
  "create_export_result resp =
     and_then (get (data resp) ''status'') (\<lambda>status.
       Inr (Envelope [(''success'', JBool True), (''data'', data resp),
                      (''message'', JStr (''Export created successfully. Status: '' @ to_str status))]))"

definition export_by_id_url :: "host \<Rightarrow> js \<Rightarrow> thrown + string" where
  "export_by_id_url h args =
     and_then (get args ''websetId'') (\<lambda>websetId.
     and_then (get args ''exportId'') (\<lambda>exportId.
       Inr (replace (replace (endpoint h WEBSET_EXPORT_BY_ID) '':websetId'' (to_str websetId))
                    '':exportId'' (to_str exportId))))"

definition get_export_request :: "host \<Rightarrow> js \<Rightarrow> thrown + request" where
  "get_export_request h args =
     and_then (export_by_id_url h args) (\<lambda>u.
       Inr (direct_call h (json_headers h) GET u NoParams None))"

definition get_export_result :: "response \<Rightarrow> thrown + outcome" where
  "get_export_result resp =
     and_then (get (data resp) ''status'') (\<lambda>status.
       Inr (Envelope [(''success'', JBool True), (''data'', data resp),
                      (''downloadReady'',
                       JBool (status = JStr ''completed'' \<and> truthy (oget (data resp) ''downloadUrl'')))]))"

definition list_exports_request :: "host \<Rightarrow> js \<Rightarrow> thrown + request" where
  "list_exports_request h args =
     and_then (get args ''websetId'') (\<lambda>websetId.
       let limit = oget args ''limit''; cursor = oget args ''cursor'';
           u = replace (endpoint h WEBSET_EXPORTS) '':websetId'' (to_str websetId);
           ps = [(''limit'', limit)] @ (if truthy cursor then [(''cursor'', cursor)] else [])
       in Inr (direct_call h (json_headers h) GET u (ParamsObject ps) None))"

text \<open>\<^verbatim>\<open>xs.filter(e => e.status === s).length\<close>\<close>

definition count_status :: "js \<Rightarrow> string \<Rightarrow> thrown + js" where
  "count_status page s =
     and_then (as_array page) (\<lambda>xs.
     and_then (filter_js (\<lambda>e. and_then (get e ''status'') (\<lambda>st. Inr (st = JStr s))) xs) (\<lambda>ys.
       Inr (JNum (int (length ys)))))"

definition list_exports_result :: "response \<Rightarrow> thrown + outcome" where
  "list_exports_result resp =
     and_then (get (data resp) ''data'') (\<lambda>page.
     and_then (length_of page) (\<lambda>total.
     and_then (count_status page ''completed'') (\<lambda>completed.
     and_then (count_status page ''pending'') (\<lambda>pending.
     and_then (count_status page ''processing'') (\<lambda>processing.
     and_then (count_status page ''failed'') (\<lambda>failed.
       Inr (Envelope [(''success'', JBool True), (''data'', page),
                      (''hasMore'', oget (data resp) ''hasMore''),
                      (''nextCursor'', oget (data resp) ''nextCursor''),
                      (''summary'', JObj [(''total'', total), (''completed'', completed),
                                          (''pending'', pending), (''processing'', processing),
                                          (''failed'', failed)])])))))))"

definition delete_export_request :: "host \<Rightarrow> js \<Rightarrow> thrown + request" where
  "delete_export_request h args =
     and_then (export_by_id_url h args) (\<lambda>u.
       Inr (direct_call h (json_headers h) DELETE u NoParams None))"

definition delete_export_result :: "response \<Rightarrow> thrown + outcome" where
  "delete_export_result resp =
     Inr (Envelope [(''success'', JBool True), (''message'', JStr ''Export deleted successfully'')])"

section \<open>Item update and batch tools\<close>

definition item_by_id_url :: "host \<Rightarrow> js \<Rightarrow> js \<Rightarrow> string" where
  "item_by_id_url h websetId itemId =
     replace (replace (endpoint h WEBSET_ITEM_BY_ID) '':websetId'' (to_str websetId))
             '':itemId'' (to_str itemId)"

definition update_webset_item_request :: "host \<Rightarrow> js \<Rightarrow> thrown + request" where
  "update_webset_item_request h args =
     and_then (get args ''websetId'') (\<lambda>websetId.
       let itemId = oget args ''itemId'';
           body = JObj (spread_if ''metadata'' (oget args ''metadata'')
                        @ spread_if ''verification'' (oget args ''verification'')
                        @ spread_if ''customFields'' (oget args ''customFields''))
       in Inr (direct_call h (json_body_headers h) PATCH (item_by_id_url h websetId itemId)
                 NoParams (Some body)))"

definition update_webset_item_result :: "response \<Rightarrow> thrown + outcome" where
  "update_webset_item_result resp =
     Inr (Envelope [(''success'', JBool True), (''data'', data resp),
                    (''message'', JStr ''Item updated successfully'')])"

text \<open>The three batch tools post one body to \<^verbatim>\<open>`${WEBSET_ITEMS}/batch-...`\<close> and, once the
  call has resolved, read \<^verbatim>\<open>itemIds.length\<close> for the message.\<close>

definition batch_url :: "host \<Rightarrow> string \<Rightarrow> js \<Rightarrow> string" where
  "batch_url h suffix websetId =
     replace (endpoint h WEBSET_ITEMS @ suffix) '':websetId'' (to_str websetId)"

definition batch_result :: "string \<Rightarrow> js \<Rightarrow> response \<Rightarrow> thrown + outcome" where
  "batch_result done args resp =
     and_then (length_of (oget args ''itemIds'')) (\<lambda>n.
       Inr (Envelope [(''success'', JBool True), (''data'', data resp),
                      (''message'', JStr (done @ to_str n @ '' items''))]))"

definition batch_update_items_request :: "host \<Rightarrow> js \<Rightarrow> thrown + request" where
  "batch_update_items_request h args =
     and_then (get args ''websetId'') (\<lambda>websetId.
       let body = JObj [(''itemIds'', oget args ''itemIds''), (''updates'', oget args ''updates'')]
       in Inr (direct_call h (json_body_headers h) POST (batch_url h ''/batch-update'' websetId)
                 NoParams (Some body)))"

definition batch_delete_items_request :: "host \<Rightarrow> js \<Rightarrow> thrown + request" where
  "batch_delete_items_request h args =
     and_then (get args ''websetId'') (\<lambda>websetId.
       let body = JObj [(''itemIds'', oget args ''itemIds'')]
       in Inr (direct_call h (json_body_headers h) POST (batch_url h ''/batch-delete'' websetId)
                 NoParams (Some body)))"

definition batch_verify_items_request :: "host \<Rightarrow> js \<Rightarrow> thrown + request" where
  "batch_verify_items_request h args =
     and_then (get args ''websetId'') (\<lambda>websetId.
       let body = JObj [(''itemIds'', oget args ''itemIds''),
                        (''verification'',
                         JObj ([(''status'', oget args ''status'')]
                               @ spread_if ''reasoning'' (oget args ''reasoning'')))]
       in Inr (direct_call h (json_body_headers h) POST (batch_url h ''/batch-verify'' websetId)
                 NoParams (Some body)))"

section \<open>Item tools (list, get, delete, search)\<close>

text \<open>\<^verbatim>\<open>if (v) params.append(k, v)\<close> (and \<^verbatim>\<open>v.toString()\<close> for a number: the same string).\<close>

definition param_if :: "string \<Rightarrow> js \<Rightarrow> (string \<times> string) list" where
  "param_if k v = (if truthy v then [(k, to_str v)] else [])"

text \<open>\<^verbatim>\<open>if (v !== undefined) params.append(k, v.toString())\<close>\<close>

definition param_if_defined :: "string \<Rightarrow> js \<Rightarrow> thrown + (string \<times> string) list" where
  "param_if_defined k v =
     (if v = Undefined then Inr [] else and_then (toString v) (\<lambda>s. Inr [(k, s)]))"

text \<open>\<^verbatim>\<open>Object.entries(v)\<close>: the own enumerable properties; an array or a string has its
  indices, the other primitives have none.\<close>

definition object_entries :: "js \<Rightarrow> thrown + (string \<times> js) list" where
  "object_entries v =
     (case v of
        JObj kvs \<Rightarrow> Inr kvs
      | JArr xs \<Rightarrow> Inr (zip (map digits [0..<length xs]) xs)
      | JStr s \<Rightarrow> Inr (zip (map digits [0..<length s]) (map (\<lambda>c. JStr [c]) s))
      | Undefined \<Rightarrow> Inl TypeError
      | Null \<Rightarrow> Inl TypeError
      | _ \<Rightarrow> Inr [])"

text \<open>The \<^verbatim>\<open>catch\<close> block of the four item tools. The text is a template literal:
  \<^verbatim>\<open>`What error (${statusCode}): ${errorMessage}`\<close>, where \<open>statusCode\<close> is a number or the
  string \<^verbatim>\<open>unknown\<close>, and \<open>errorMessage\<close> is whatever the \<open>error\<close> field of the response
  body holds, converted to a string there; and
  \<^verbatim>\<open>`What error: ${error instanceof Error ? error.message : String(error)}`\<close>.\<close>

definition response_status :: "response option \<Rightarrow> js" where
  "response_status r = (case r of None \<Rightarrow> Undefined | Some resp \<Rightarrow> JNum (status resp))"

definition items_catch :: "string \<Rightarrow> thrown \<Rightarrow> thrown + outcome" where
  "items_catch what error =
     (case error of
        AxiosError message resp \<Rightarrow>
          (let statusCode = or_else (response_status resp) (JStr ''unknown'');
               errorMessage = or_else (oget (response_data resp) ''error'') (JStr message)
           in and_then (ToString errorMessage) (\<lambda>shown.
                Inr (ToolResult (Text (what @ '' error ('' @ to_str statusCode @ ''): '' @ shown))
                       True)))
      | JsError message \<Rightarrow> Inr (ToolResult (Text (what @ '' error: '' @ message)) True)
      | NonError v \<Rightarrow>
          and_then (ToString v) (\<lambda>shown. Inr (ToolResult (Text (what @ '' error: '' @ shown)) True)))"

definition items_url :: "host \<Rightarrow> js \<Rightarrow> string" where
  "items_url h websetId = replace (endpoint h WEBSET_ITEMS) '':websetId'' (to_str websetId)"

definition list_webset_items_request :: "host \<Rightarrow> js \<Rightarrow> thrown + request" where
  "list_webset_items_request h args =
     and_then (param_if_defined ''hasEnrichedData'' (oget args ''hasEnrichedData'')) (\<lambda>enriched.
       let ps = param_if ''cursor'' (oget args ''cursor'')
              @ param_if ''limit'' (oget args ''limit'')
              @ param_if ''type'' (oget args ''type'')
              @ param_if ''verificationStatus'' (oget args ''verificationStatus'')
              @ enriched
              @ param_if ''createdAfter'' (oget args ''createdAfter'')
              @ param_if ''createdBefore'' (oget args ''createdBefore'')
              @ param_if ''updatedAfter'' (oget args ''updatedAfter'')
              @ param_if ''updatedBefore'' (oget args ''updatedBefore'')
       in Inr (instance_call h (json_headers h) GET (items_url h (oget args ''websetId''))
                 (URLSearchParams ps) None))"

text \<open>\<^verbatim>\<open>Object.keys(v).length > 0\<close> for a truthy \<open>v\<close>.\<close>

definition has_keys :: "js \<Rightarrow> bool" where
  "has_keys v = (case object_entries v of Inl e \<Rightarrow> False | Inr kvs \<Rightarrow> kvs \<noteq> [])"

definition list_item_summary :: "js \<Rightarrow> thrown + js" where
  "list_item_summary item =
     and_then (get item ''id'') (\<lambda>id.
       Inr (JObj [(''id'', id), (''url'', oget item ''url''), (''title'', oget item ''title''),
                  (''type'', oget item ''type''),
                  (''verificationStatus'', oget (oget item ''verification'') ''status''),
                  (''hasEnrichedData'',
                   JBool (truthy (oget item ''enrichedData'') \<and> has_keys (oget item ''enrichedData''))),
                  (''createdAt'', oget item ''createdAt''),
                  (''updatedAt'', oget item ''updatedAt'')]))"

definition list_webset_items_result :: "js \<Rightarrow> response \<Rightarrow> thrown + outcome" where
  "list_webset_items_result args resp =
     and_then (get (data resp) ''data'') (\<lambda>page.
     and_then (length_of page) (\<lambda>itemCount.
     and_then (as_array page) (\<lambda>xs.
     and_then (map_js list_item_summary xs) (\<lambda>items.
       Inr (ToolResult (Stringify (JObj [(''websetId'', oget args ''websetId''),
                                         (''itemCount'', itemCount),
                                         (''hasMore'', oget (data resp) ''hasMore''),
                                         (''nextCursor'', oget (data resp) ''nextCursor''),
                                         (''items'', JArr items)])) False)))))"

definition stringify_data :: "response \<Rightarrow> thrown + outcome" where
  "stringify_data resp = Inr (ToolResult (Stringify (data resp)) False)"

definition get_webset_item_request :: "host \<Rightarrow> js \<Rightarrow> thrown + request" where
  "get_webset_item_request h args =
     Inr (instance_call h (json_headers h) GET
            (item_by_id_url h (oget args ''websetId'') (oget args ''itemId'')) NoParams None)"

definition delete_webset_item_request :: "host \<Rightarrow> js \<Rightarrow> thrown + request" where
  "delete_webset_item_request h args =
     Inr (instance_call h (json_headers h) DELETE
            (item_by_id_url h (oget args ''websetId'') (oget args ''itemId'')) NoParams None)"

definition delete_webset_item_result :: "js \<Rightarrow> response \<Rightarrow> thrown + outcome" where
  "delete_webset_item_result args resp =
     Inr (ToolResult (Text (''Item '' @ to_str (oget args ''itemId'')
                            @ '' has been successfully deleted from Webset ''
                            @ to_str (oget args ''websetId'') @ ''.'')) False)"

subsection \<open>Search\<close>

text \<open>\<^verbatim>\<open>Object.entries(m).forEach(([key, value]) => params.append(`prefix.${key}`, value))\<close>
  under \<^verbatim>\<open>if (m)\<close>.\<close>

definition dotted_params :: "string \<Rightarrow> js \<Rightarrow> thrown + (string \<times> string) list" where
  "dotted_params prefix m =
     (if truthy m
      then and_then (object_entries m) (\<lambda>kvs.
             Inr (map (\<lambda>kv. (prefix @ ''.'' @ fst kv, to_str (snd kv))) kvs))
      else Inr [])"

definition search_webset_items_request :: "host \<Rightarrow> js \<Rightarrow> thrown + request" where
  "search_webset_items_request h args =
     (let filters = oget args ''filters'' in
      and_then (param_if_defined ''hasEnrichedData'' (oget filters ''hasEnrichedData'')) (\<lambda>enriched.
      and_then (dotted_params ''metadata'' (oget filters ''metadata'')) (\<lambda>metadata.
      and_then (dotted_params ''enrichmentStatus'' (oget filters ''enrichmentStatus'')) (\<lambda>enrichment.
        let ps = param_if ''cursor'' (oget args ''cursor'')
               @ param_if ''limit'' (oget args ''limit'')
               @ param_if ''type'' (oget filters ''type'')
               @ param_if ''verificationStatus'' (oget filters ''verificationStatus'')
               @ enriched
               @ param_if ''createdAfter'' (oget filters ''createdAfter'')
               @ param_if ''createdBefore'' (oget filters ''createdBefore'')
               @ param_if ''updatedAfter'' (oget filters ''updatedAfter'')
               @ param_if ''updatedBefore'' (oget filters ''updatedBefore'')
               @ metadata @ enrichment
        in Inr (instance_call h (json_headers h) GET (items_url h (oget args ''websetId''))
                  (URLSearchParams ps) None)))))"

text \<open>\<^verbatim>\<open>if (filters?.urlPattern) { const urlRegex = new RegExp(filters.urlPattern, 'i');
  filteredItems = filteredItems.filter(item => urlRegex.test(item.url)); }\<close>\<close>

definition url_filter :: "host \<Rightarrow> js \<Rightarrow> js \<Rightarrow> thrown + js" where
  "url_filter h filters filteredItems =
     (if truthy (oget filters ''urlPattern'')
      then and_then (RegExp h (to_str (oget filters ''urlPattern'')) ''i'') (\<lambda>urlRegex.
           and_then (as_array filteredItems) (\<lambda>xs.
           and_then (filter_js (\<lambda>item. and_then (get item ''url'') (\<lambda>u. Inr (urlRegex (to_str u)))) xs)
             (\<lambda>ys. Inr (JArr ys))))
      else Inr filteredItems)"

text \<open>\<^verbatim>\<open>if (filters?.titlePattern) { const titleRegex = new RegExp(filters.titlePattern, 'i');
  filteredItems = filteredItems.filter(item => item.title && titleRegex.test(item.title)); }\<close>\<close>

definition title_filter :: "host \<Rightarrow> js \<Rightarrow> js \<Rightarrow> thrown + js" where
  "title_filter h filters filteredItems =
     (if truthy (oget filters ''titlePattern'')
      then and_then (RegExp h (to_str (oget filters ''titlePattern'')) ''i'') (\<lambda>titleRegex.
           and_then (as_array filteredItems) (\<lambda>xs.
           and_then (filter_js (\<lambda>item. and_then (get item ''title'') (\<lambda>t.
                                  Inr (truthy t \<and> titleRegex (to_str t)))) xs)
             (\<lambda>ys. Inr (JArr ys))))
      else Inr filteredItems)"

definition search_item :: "js \<Rightarrow> thrown + js" where
  "search_item item =
     and_then (get item ''id'') (\<lambda>id.
       Inr (JObj [(''id'', id), (''url'', oget item ''url''), (''title'', oget item ''title''),
                  (''type'', oget item ''type''), (''verification'', oget item ''verification''),
                  (''enrichedData'', oget item ''enrichedData''),
                  (''metadata'', oget item ''metadata''),
                  (''createdAt'', oget item ''createdAt''),
                  (''updatedAt'', oget item ''updatedAt'')]))"

definition search_webset_items_result :: "host \<Rightarrow> js \<Rightarrow> response \<Rightarrow> thrown + outcome" where
  "search_webset_items_result h args resp =
     (let filters = oget args ''filters'' in
      and_then (get (data resp) ''data'') (\<lambda>page.
      and_then (url_filter h filters page) (\<lambda>byUrl.
      and_then (title_filter h filters byUrl) (\<lambda>filteredItems.
      and_then (length_of page) (\<lambda>retrieved.
      and_then (length_of filteredItems) (\<lambda>matchingItems.
      and_then (as_array filteredItems) (\<lambda>xs.
      and_then (map_js search_item xs) (\<lambda>items.
        Inr (ToolResult (Stringify (JObj [(''websetId'', oget args ''websetId''),
                                          (''matchingItems'', matchingItems),
                                          (''hasMore'', oget (data resp) ''hasMore''),
                                          (''nextCursor'', oget (data resp) ''nextCursor''),
                                          (''filters'', filters),
                                          (''items'', JArr items)])) False)))))))))"

section \<open>Import, monitor, webhook and event tools\<close>

text \<open>The \<^verbatim>\<open>catch\<close> block of these tools:
  \<^verbatim>\<open>`What error: ${error instanceof Error ? error.message : String(error)}`\<close>.\<close>

definition error_text :: "thrown \<Rightarrow> thrown + string" where
  "error_text error =
     (case error of
        AxiosError message resp \<Rightarrow> Inr message
      | JsError message \<Rightarrow> Inr message
      | NonError v \<Rightarrow> ToString v)"

definition simple_catch :: "string \<Rightarrow> thrown \<Rightarrow> thrown + outcome" where
  "simple_catch what error =
     and_then (error_text error) (\<lambda>shown. Inr (ToolResult (Text (what @ '' error: '' @ shown)) True))"

definition said :: "string \<Rightarrow> response \<Rightarrow> thrown + outcome" where
  "said message resp = Inr (ToolResult (Text message) False)"

subsection \<open>Imports\<close>

definition create_import_request :: "host \<Rightarrow> js \<Rightarrow> thrown + request" where
  "create_import_request h args =
     and_then (get args ''sourceUrl'') (\<lambda>sourceUrl.
       let requestBody = JObj ([(''sourceUrl'', sourceUrl)]
                               @ spread_if ''fileType'' (oget args ''fileType'')
                               @ spread_if ''websetId'' (oget args ''websetId'')
                               @ spread_if ''metadata'' (oget args ''metadata''))
       in Inr (instance_call h (json_body_headers h) POST (endpoint h IMPORTS) NoParams
                 (Some requestBody)))"

text \<open>The log line \<^verbatim>\<open>`Import job created with ID: ${response.data.id}`\<close> reads the body
  before the result is built.\<close>

definition create_import_result :: "response \<Rightarrow> thrown + outcome" where
  "create_import_result resp = and_then (get (data resp) ''id'') (\<lambda>id. stringify_data resp)"

definition import_url :: "host \<Rightarrow> js \<Rightarrow> string" where
  "import_url h args = replace (endpoint h IMPORT_BY_ID) '':importId'' (to_str (oget args ''importId''))"

definition get_import_request :: "host \<Rightarrow> js \<Rightarrow> thrown + request" where
  "get_import_request h args =
     Inr (instance_call h (json_headers h) GET (import_url h args) NoParams None)"

definition list_imports_request :: "host \<Rightarrow> js \<Rightarrow> thrown + request" where
  "list_imports_request h args =
     and_then (get args ''status'') (\<lambda>status.
       let ps = param_if ''status'' status
              @ param_if ''websetId'' (oget args ''websetId'')
              @ param_if ''cursor'' (oget args ''cursor'')
              @ param_if ''limit'' (oget args ''limit'')
       in Inr (instance_call h (json_headers h) GET (endpoint h IMPORTS) (URLSearchParams ps) None))"

definition update_import_request :: "host \<Rightarrow> js \<Rightarrow> thrown + request" where
  "update_import_request h args =
     Inr (instance_call h (json_body_headers h) PATCH (import_url h args) NoParams
            (Some (JObj [(''status'', oget args ''status'')])))"

definition delete_import_request :: "host \<Rightarrow> js \<Rightarrow> thrown + request" where
  "delete_import_request h args =
     Inr (instance_call h (json_headers h) DELETE (import_url h args) NoParams None)"

subsection \<open>Monitors\<close>

definition monitors_url :: "host \<Rightarrow> js \<Rightarrow> string" where
  "monitors_url h args =
     replace (endpoint h WEBSET_MONITORS) '':websetId'' (to_str (oget args ''websetId''))"

definition monitor_url :: "host \<Rightarrow> js \<Rightarrow> string" where
  "monitor_url h args =
     replace (replace (endpoint h WEBSET_MONITOR_BY_ID) '':websetId'' (to_str (oget args ''websetId'')))
             '':monitorId'' (to_str (oget args ''monitorId''))"

definition create_webset_monitor_request :: "host \<Rightarrow> js \<Rightarrow> thrown + request" where
  "create_webset_monitor_request h args =
     (let requestBody = JObj ([(''websetId'', oget args ''websetId''),
                               (''cadence'', oget args ''cadence'')]
                              @ spread_if ''query'' (oget args ''query'')
                              @ spread_if ''searchBehavior'' (oget args ''searchBehavior'')
                              @ spread_if ''metadata'' (oget args ''metadata''))
      in Inr (instance_call h (json_body_headers h) POST (monitors_url h args) NoParams
                (Some requestBody)))"

text \<open>The rest pattern \<^verbatim>\<open>{ a, b, ...rest }\<close>: the own properties other than the named ones.\<close>

definition rest_without :: "string list \<Rightarrow> js \<Rightarrow> js" where
  "rest_without names v =
     (case object_entries v of
        Inl e \<Rightarrow> JObj []
      | Inr kvs \<Rightarrow> JObj (filter (\<lambda>kv. fst kv \<notin> set names) kvs))"

definition update_webset_monitor_request :: "host \<Rightarrow> js \<Rightarrow> thrown + request" where
  "update_webset_monitor_request h args =
     Inr (instance_call h (json_body_headers h) PATCH (monitor_url h args) NoParams
            (Some (rest_without [''websetId'', ''monitorId''] args)))"

definition get_webset_monitor_request :: "host \<Rightarrow> js \<Rightarrow> thrown + request" where
  "get_webset_monitor_request h args =
     Inr (instance_call h (json_headers h) GET (monitor_url h args) NoParams None)"

text \<open>\<^verbatim>\<open>status\<close>, \<^verbatim>\<open>cursor\<close>, \<^verbatim>\<open>limit\<close>, each appended when truthy.\<close>

definition status_page_params :: "js \<Rightarrow> (string \<times> string) list" where
  "status_page_params args =
     param_if ''status'' (oget args ''status'')
     @ param_if ''cursor'' (oget args ''cursor'')
     @ param_if ''limit'' (oget args ''limit'')"

definition list_webset_monitors_request :: "host \<Rightarrow> js \<Rightarrow> thrown + request" where
  "list_webset_monitors_request h args =
     Inr (instance_call h (json_headers h) GET (monitors_url h args)
            (URLSearchParams (status_page_params args)) None)"

definition delete_webset_monitor_request :: "host \<Rightarrow> js \<Rightarrow> thrown + request" where
  "delete_webset_monitor_request h args =
     Inr (instance_call h (json_headers h) DELETE (monitor_url h args) NoParams None)"

definition monitor_runs_url :: "host \<Rightarrow> string \<Rightarrow> js \<Rightarrow> string" where
  "monitor_runs_url h template args =
     replace (replace template '':websetId'' (to_str (oget args ''websetId'')))
             '':monitorId'' (to_str (oget args ''monitorId''))"

definition list_monitor_runs_request :: "host \<Rightarrow> js \<Rightarrow> thrown + request" where
  "list_monitor_runs_request h args =
     Inr (instance_call h (json_headers h) GET
            (monitor_runs_url h (endpoint h WEBSET_MONITOR_RUNS) args)
            (URLSearchParams (status_page_params args)) None)"

text \<open>\<^verbatim>\<open>`${API_CONFIG.ENDPOINTS.WEBSET_MONITOR_RUNS}/${runId}`\<close>, then the two replacements.\<close>

definition get_monitor_run_request :: "host \<Rightarrow> js \<Rightarrow> thrown + request" where
  "get_monitor_run_request h args =
     Inr (instance_call h (json_headers h) GET
            (monitor_runs_url h (endpoint h WEBSET_MONITOR_RUNS @ ''/'' @ to_str (oget args ''runId''))
               args)
            NoParams None)"

subsection \<open>Webhooks\<close>

definition create_webhook_request :: "host \<Rightarrow> js \<Rightarrow> thrown + request" where
  "create_webhook_request h args =
     and_then (get args ''url'') (\<lambda>webhookUrl.
       let requestBody = JObj ([(''url'', webhookUrl), (''events'', oget args ''events'')]
                               @ spread_if ''description'' (oget args ''description'')
                               @ spread_if ''secret'' (oget args ''secret''))
       in Inr (instance_call h (json_body_headers h) POST (endpoint h WEBHOOKS) NoParams
                 (Some requestBody)))"

definition webhook_url :: "host \<Rightarrow> js \<Rightarrow> string" where
  "webhook_url h args =
     replace (endpoint h WEBHOOK_BY_ID) '':webhookId'' (to_str (oget args ''webhookId''))"

definition get_webhook_request :: "host \<Rightarrow> js \<Rightarrow> thrown + request" where
  "get_webhook_request h args =
     Inr (instance_call h (json_headers h) GET (webhook_url h args) NoParams None)"

definition list_webhooks_request :: "host \<Rightarrow> js \<Rightarrow> thrown + request" where
  "list_webhooks_request h args =
     and_then (get args ''status'') (\<lambda>status.
       Inr (instance_call h (json_headers h) GET (endpoint h WEBHOOKS)
              (URLSearchParams (status_page_params args)) None))"

text \<open>\<^verbatim>\<open>if (updateData.url) requestBody.url = ...; if (updateData.events) ...;
  if (updateData.description !== undefined) ...; if (updateData.status) ...\<close>\<close>

definition update_webhook_request :: "host \<Rightarrow> js \<Rightarrow> thrown + request" where
  "update_webhook_request h args =
     (let updateData = rest_without [''webhookId''] args;
          requestBody = JObj (spread_if ''url'' (oget updateData ''url'')
                              @ spread_if ''events'' (oget updateData ''events'')
                              @ (if oget updateData ''description'' \<noteq> Undefined
                                 then [(''description'', oget updateData ''description'')] else [])
                              @ spread_if ''status'' (oget updateData ''status''))
      in Inr (instance_call h (json_body_headers h) PATCH (webhook_url h args) NoParams
                (Some requestBody)))"

definition delete_webhook_request :: "host \<Rightarrow> js \<Rightarrow> thrown + request" where
  "delete_webhook_request h args =
     Inr (instance_call h (json_headers h) DELETE (webhook_url h args) NoParams None)"

definition list_webhook_attempts_request :: "host \<Rightarrow> js \<Rightarrow> thrown + request" where
  "list_webhook_attempts_request h args =
     (let ps = param_if ''eventType'' (oget args ''eventType'')
             @ param_if ''cursor'' (oget args ''cursor'')
             @ param_if ''limit'' (oget args ''limit'')
      in Inr (instance_call h (json_headers h) GET
                (replace (endpoint h WEBHOOK_ATTEMPTS) '':webhookId'' (to_str (oget args ''webhookId'')))
                (URLSearchParams ps) None))"

subsection \<open>Events\<close>

definition list_events_request :: "host \<Rightarrow> js \<Rightarrow> thrown + request" where
  "list_events_request h args =
     and_then (get args ''eventType'') (\<lambda>eventType.
       let ps = param_if ''eventType'' eventType
              @ param_if ''websetId'' (oget args ''websetId'')
              @ param_if ''cursor'' (oget args ''cursor'')
              @ param_if ''limit'' (oget args ''limit'')
       in Inr (instance_call h (json_headers h) GET (endpoint h EVENTS) (URLSearchParams ps) None))"

definition get_event_request :: "host \<Rightarrow> js \<Rightarrow> thrown + request" where
  "get_event_request h args =
     Inr (instance_call h (json_headers h) GET
            (replace (endpoint h EVENT_BY_ID) '':eventId'' (to_str (oget args ''eventId'')))
            NoParams None)"

section \<open>The catalogue of tools\<close>

text \<open>One constructor per registered tool, named as the tool is.\<close>

datatype operation =
    create_export_exa
  | get_export_exa
  | list_exports_exa
  | delete_export_exa
  | update_webset_item_exa
  | batch_update_items_exa
  | batch_delete_items_exa
  | batch_verify_items_exa
  | list_webset_items_exa
  | get_webset_item_exa
  | delete_webset_item_exa
  | search_webset_items_exa
  | create_import_exa
  | get_import_exa
  | list_imports_exa
  | update_import_exa
  | delete_import_exa
  | create_webset_monitor_exa
  | update_webset_monitor_exa
  | get_webset_monitor_exa
  | list_webset_monitors_exa
  | delete_webset_monitor_exa
  | list_monitor_runs_exa
  | get_monitor_run_exa
  | create_webhook_exa
  | get_webhook_exa
  | list_webhooks_exa
  | update_webhook_exa
  | delete_webhook_exa
  | list_webhook_attempts_exa
  | list_events_exa
  | get_event_exa

text \<open>What the \<^verbatim>\<open>try\<close> block does up to the HTTP call: the request it builds, or what it throws.\<close>

fun request_of :: "operation \<Rightarrow> host \<Rightarrow> js \<Rightarrow> thrown + request" where
  "request_of create_export_exa = create_export_request"
| "request_of get_export_exa = get_export_request"
| "request_of list_exports_exa = list_exports_request"
| "request_of delete_export_exa = delete_export_request"
| "request_of update_webset_item_exa = update_webset_item_request"
| "request_of batch_update_items_exa = batch_update_items_request"
| "request_of batch_delete_items_exa = batch_delete_items_request"
| "request_of batch_verify_items_exa = batch_verify_items_request"
| "request_of list_webset_items_exa = list_webset_items_request"
| "request_of get_webset_item_exa = get_webset_item_request"
| "request_of delete_webset_item_exa = delete_webset_item_request"
| "request_of search_webset_items_exa = search_webset_items_request"
| "request_of create_import_exa = create_import_request"
| "request_of get_import_exa = get_import_request"
| "request_of list_imports_exa = list_imports_request"
| "request_of update_import_exa = update_import_request"
| "request_of delete_import_exa = delete_import_request"
| "request_of create_webset_monitor_exa = create_webset_monitor_request"
| "request_of update_webset_monitor_exa = update_webset_monitor_request"
| "request_of get_webset_monitor_exa = get_webset_monitor_request"
| "request_of list_webset_monitors_exa = list_webset_monitors_request"
| "request_of delete_webset_monitor_exa = delete_webset_monitor_request"
| "request_of list_monitor_runs_exa = list_monitor_runs_request"
| "request_of get_monitor_run_exa = get_monitor_run_request"
| "request_of create_webhook_exa = create_webhook_request"
| "request_of get_webhook_exa = get_webhook_request"
| "request_of list_webhooks_exa = list_webhooks_request"
| "request_of update_webhook_exa = update_webhook_request"
| "request_of delete_webhook_exa = delete_webhook_request"
| "request_of list_webhook_attempts_exa = list_webhook_attempts_request"
| "request_of list_events_exa = list_events_request"
| "request_of get_event_exa = get_event_request"

text \<open>What the \<^verbatim>\<open>try\<close> block does once the call has resolved.\<close>

fun result_of :: "operation \<Rightarrow> host \<Rightarrow> js \<Rightarrow> response \<Rightarrow> thrown + outcome" where
  "result_of create_export_exa h args resp = create_export_result resp"
| "result_of get_export_exa h args resp = get_export_result resp"
| "result_of list_exports_exa h args resp = list_exports_result resp"
| "result_of delete_export_exa h args resp = delete_export_result resp"
| "result_of update_webset_item_exa h args resp = update_webset_item_result resp"
| "result_of batch_update_items_exa h args resp = batch_result ''Successfully updated '' args resp"
| "result_of batch_delete_items_exa h args resp = batch_result ''Successfully deleted '' args resp"
| "result_of batch_verify_items_exa h args resp = batch_result ''Successfully updated verification status for '' args resp"
| "result_of list_webset_items_exa h args resp = list_webset_items_result args resp"
| "result_of get_webset_item_exa h args resp = stringify_data resp"
| "result_of delete_webset_item_exa h args resp = delete_webset_item_result args resp"
| "result_of search_webset_items_exa h args resp = search_webset_items_result h args resp"
| "result_of create_import_exa h args resp = create_import_result resp"
| "result_of get_import_exa h args resp = stringify_data resp"
| "result_of list_imports_exa h args resp = stringify_data resp"
| "result_of update_import_exa h args resp = stringify_data resp"
| "result_of delete_import_exa h args resp = said ''Import deleted successfully'' resp"
| "result_of create_webset_monitor_exa h args resp = stringify_data resp"
| "result_of update_webset_monitor_exa h args resp = stringify_data resp"
| "result_of get_webset_monitor_exa h args resp = stringify_data resp"
| "result_of list_webset_monitors_exa h args resp = stringify_data resp"
| "result_of delete_webset_monitor_exa h args resp = said ''Monitor deleted successfully'' resp"
| "result_of list_monitor_runs_exa h args resp = stringify_data resp"
| "result_of get_monitor_run_exa h args resp = stringify_data resp"
| "result_of create_webhook_exa h args resp = stringify_data resp"
| "result_of get_webhook_exa h args resp = stringify_data resp"
| "result_of list_webhooks_exa h args resp = stringify_data resp"
| "result_of update_webhook_exa h args resp = stringify_data resp"
| "result_of delete_webhook_exa h args resp = said ''Webhook deleted successfully'' resp"
| "result_of list_webhook_attempts_exa h args resp = stringify_data resp"
| "result_of list_events_exa h args resp = stringify_data resp"
| "result_of get_event_exa h args resp = stringify_data resp"

text \<open>The \<^verbatim>\<open>catch\<close> block.\<close>

fun catch_of :: "operation \<Rightarrow> thrown \<Rightarrow> thrown + outcome" where
  "catch_of create_export_exa = envelope_catch"
| "catch_of get_export_exa = envelope_catch"
| "catch_of list_exports_exa = envelope_catch"
| "catch_of delete_export_exa = envelope_catch"
| "catch_of update_webset_item_exa = envelope_catch"
| "catch_of batch_update_items_exa = envelope_catch"
| "catch_of batch_delete_items_exa = envelope_catch"
| "catch_of batch_verify_items_exa = envelope_catch"
| "catch_of list_webset_items_exa = items_catch ''List items''"
| "catch_of get_webset_item_exa = items_catch ''Get item''"
| "catch_of delete_webset_item_exa = items_catch ''Delete item''"
| "catch_of search_webset_items_exa = items_catch ''Search items''"
| "catch_of create_import_exa = simple_catch ''Create import''"
| "catch_of get_import_exa = simple_catch ''Get import''"
| "catch_of list_imports_exa = simple_catch ''List imports''"
| "catch_of update_import_exa = simple_catch ''Update import''"
| "catch_of delete_import_exa = simple_catch ''Delete import''"
| "catch_of create_webset_monitor_exa = simple_catch ''Create monitor''"
| "catch_of update_webset_monitor_exa = simple_catch ''Update monitor''"
| "catch_of get_webset_monitor_exa = simple_catch ''Get monitor''"
| "catch_of list_webset_monitors_exa = simple_catch ''List monitors''"
| "catch_of delete_webset_monitor_exa = simple_catch ''Delete monitor''"
| "catch_of list_monitor_runs_exa = simple_catch ''List monitor runs''"
| "catch_of get_monitor_run_exa = simple_catch ''Get monitor run''"
| "catch_of create_webhook_exa = simple_catch ''Create webhook''"
| "catch_of get_webhook_exa = simple_catch ''Get webhook''"
| "catch_of list_webhooks_exa = simple_catch ''List webhooks''"
| "catch_of update_webhook_exa = simple_catch ''Update webhook''"
| "catch_of delete_webhook_exa = simple_catch ''Delete webhook''"
| "catch_of list_webhook_attempts_exa = simple_catch ''List webhook attempts''"
| "catch_of list_events_exa = simple_catch ''List events''"
| "catch_of get_event_exa = simple_catch ''Get event''"

text \<open>Whether the handler's parameter is a destructuring pattern (\<^verbatim>\<open>async ({ websetId, ... }) =>\<close>)
  rather than a plain \<^verbatim>\<open>args\<close>.\<close>

fun destructures :: "operation \<Rightarrow> bool" where
  "destructures create_export_exa = False"
| "destructures get_export_exa = False"
| "destructures list_exports_exa = False"
| "destructures delete_export_exa = False"
| "destructures update_webset_item_exa = False"
| "destructures batch_update_items_exa = False"
| "destructures batch_delete_items_exa = False"
| "destructures batch_verify_items_exa = False"
| "destructures list_webset_items_exa = True"
| "destructures get_webset_item_exa = True"
| "destructures delete_webset_item_exa = True"
| "destructures search_webset_items_exa = True"
| "destructures create_import_exa = False"
| "destructures get_import_exa = True"
| "destructures list_imports_exa = False"
| "destructures update_import_exa = True"
| "destructures delete_import_exa = True"
| "destructures create_webset_monitor_exa = True"
| "destructures update_webset_monitor_exa = True"
| "destructures get_webset_monitor_exa = True"
| "destructures list_webset_monitors_exa = True"
| "destructures delete_webset_monitor_exa = True"
| "destructures list_monitor_runs_exa = True"
| "destructures get_monitor_run_exa = True"
| "destructures create_webhook_exa = False"
| "destructures get_webhook_exa = True"
| "destructures list_webhooks_exa = False"
| "destructures update_webhook_exa = True"
| "destructures delete_webhook_exa = True"
| "destructures list_webhook_attempts_exa = True"
| "destructures list_events_exa = False"
| "destructures get_event_exa = True"

text \<open>The \<^verbatim>\<open>try\<close> block of a handler, and the handler:
  \<^verbatim>\<open>async (args) => { try { ...; const response = await axios...; return ... } catch (error) { return ... } }\<close>\<close>

definition try_block :: "operation \<Rightarrow> host \<Rightarrow> js \<Rightarrow> (thrown + outcome) run" where
  "try_block op h args = attempt (request_of op h args) h (result_of op h args)"

definition handler :: "operation \<Rightarrow> host \<Rightarrow> js \<Rightarrow> (thrown + outcome) run" where
  "handler op h args =
     (if destructures op
      then destructured args (try_catch (try_block op h args) (catch_of op))
      else try_catch (try_block op h args) (catch_of op))"

section \<open>Argument shapes\<close>

text \<open>
  The declared shape of a tool is a zod schema. The schema language, as far as the tools
  use it: \<^verbatim>\<open>z.string()\<close>, \<^verbatim>\<open>z.number()\<close>, \<^verbatim>\<open>z.boolean()\<close>, \<^verbatim>\<open>z.any()\<close>, \<^verbatim>\<open>z.enum([...])\<close>,
  \<^verbatim>\<open>z.array(s)\<close>, \<^verbatim>\<open>z.record(s)\<close>, \<^verbatim>\<open>z.object({...})\<close>, \<^verbatim>\<open>s.optional()\<close>, \<^verbatim>\<open>s.default(v)\<close>.
  Parsing gives the first issue found or the parsed value: unknown keys of an object are
  dropped and a default is filled in.
\<close>

datatype zod = ZString | ZNumber | ZBoolean | ZAny | ZEnum "string list"
  | ZArray zod | ZRecord zod | ZObject "(string \<times> zod) list" | ZOptional zod | ZDefault zod js

datatype issue = Required | InvalidType | InvalidEnumValue string

definition mismatch :: "js \<Rightarrow> issue + js" where
  "mismatch v = (if v = Undefined then Inl Required else Inl InvalidType)"

fun parse :: "zod \<Rightarrow> js \<Rightarrow> issue + js"
  and parse_shape :: "(string \<times> zod) list \<Rightarrow> (string \<times> js) list \<Rightarrow> issue + (string \<times> js) list"
  and parse_each :: "zod \<Rightarrow> js list \<Rightarrow> issue + js list"
  and parse_values :: "zod \<Rightarrow> (string \<times> js) list \<Rightarrow> issue + (string \<times> js) list"
where
  "parse ZString v = (case v of JStr s \<Rightarrow> Inr v | _ \<Rightarrow> mismatch v)"
| "parse ZNumber v = (case v of JNum n \<Rightarrow> Inr v | _ \<Rightarrow> mismatch v)"
| "parse ZBoolean v = (case v of JBool b \<Rightarrow> Inr v | _ \<Rightarrow> mismatch v)"
| "parse ZAny v = Inr v"
| "parse (ZEnum allowed) v =
     (case v of JStr s \<Rightarrow> if s \<in> set allowed then Inr v else Inl (InvalidEnumValue s)
      | _ \<Rightarrow> mismatch v)"
| "parse (ZArray z) v =
     (case v of JArr xs \<Rightarrow> (case parse_each z xs of Inl i \<Rightarrow> Inl i | Inr ys \<Rightarrow> Inr (JArr ys))
      | _ \<Rightarrow> mismatch v)"
| "parse (ZRecord z) v =
     (case v of JObj kvs \<Rightarrow> (case parse_values z kvs of Inl i \<Rightarrow> Inl i | Inr out \<Rightarrow> Inr (JObj out))
      | _ \<Rightarrow> mismatch v)"
| "parse (ZObject shape) v =
     (case v of JObj kvs \<Rightarrow> (case parse_shape shape kvs of Inl i \<Rightarrow> Inl i | Inr out \<Rightarrow> Inr (JObj out))
      | _ \<Rightarrow> mismatch v)"
| "parse (ZOptional z) v = (if v = Undefined then Inr Undefined else parse z v)"
| "parse (ZDefault z d) v = (if v = Undefined then Inr d else parse z v)"
| "parse_shape [] kvs = Inr []"
| "parse_shape (kz # shape) kvs =
     (case parse (snd kz) (lookup kvs (fst kz)) of
        Inl i \<Rightarrow> Inl i
      | Inr v \<Rightarrow>
          (case parse_shape shape kvs of
             Inl i \<Rightarrow> Inl i
           | Inr out \<Rightarrow> Inr (if v = Undefined then out else (fst kz, v) # out)))"
| "parse_each z [] = Inr []"
| "parse_each z (x # xs) =
     (case parse z x of
        Inl i \<Rightarrow> Inl i
      | Inr y \<Rightarrow> (case parse_each z xs of Inl i \<Rightarrow> Inl i | Inr ys \<Rightarrow> Inr (y # ys)))"
| "parse_values z [] = Inr []"
| "parse_values z (kv # kvs) =
     (case parse z (snd kv) of
        Inl i \<Rightarrow> Inl i
      | Inr y \<Rightarrow> (case parse_values z kvs of Inl i \<Rightarrow> Inl i | Inr out \<Rightarrow> Inr ((fst kv, y) # out)))"

definition verification_statuses :: "string list" where
  "verification_statuses = [''verified'', ''pending'', ''failed'']"

definition cadences :: "string list" where
  "cadences = [''hourly'', ''daily'', ''weekly'', ''monthly'']"

definition create_webhook_events :: "string list" where
  "create_webhook_events =
     [''webset.created'', ''webset.deleted'', ''webset.paused'', ''webset.idle'',
      ''webset.search.created'', ''webset.search.completed'', ''webset.search.canceled'',
      ''webset.item.created'', ''webset.item.enriched'',
      ''import.created'', ''import.completed'',
      ''webset.monitor.run.started'', ''webset.monitor.run.completed'']"

definition update_webhook_events :: "string list" where
  "update_webhook_events =
     [''webset.created'', ''webset.deleted'', ''webset.paused'', ''webset.idle'',
      ''webset.search.created'', ''webset.search.completed'', ''webset.search.canceled'',
      ''webset.item.created'', ''webset.item.enriched'', ''webset.item.updated'', ''webset.item.deleted'',
      ''import.created'', ''import.completed'', ''import.processing'', ''import.failed'', ''import.canceled'',
      ''webset.export.created'', ''webset.export.completed'', ''webset.export.failed'',
      ''webset.monitor.run.started'', ''webset.monitor.run.completed'', ''webset.monitor.run.failed'',
      ''webhook.created'', ''webhook.updated'', ''webhook.deleted'']"

fun inputSchema :: "operation \<Rightarrow> zod" where
  "inputSchema create_export_exa =
     ZObject [(''websetId'', ZString),
       (''format'', ZEnum [''csv'', ''json'', ''xlsx'']),
       (''filters'', ZOptional (ZObject [(''itemIds'', ZOptional (ZArray ZString)),
          (''verificationStatus'', ZOptional (ZEnum verification_statuses)),
          (''hasEnrichedData'', ZOptional ZBoolean),
          (''itemType'', ZOptional ZString)])),
       (''fields'', ZOptional (ZArray ZString))]"
| "inputSchema get_export_exa =
     ZObject [(''websetId'', ZString),
       (''exportId'', ZString)]"
| "inputSchema list_exports_exa =
     ZObject [(''websetId'', ZString),
       (''limit'', ZDefault (ZOptional ZNumber) (JNum 20)),
       (''cursor'', ZOptional ZString)]"
| "inputSchema delete_export_exa =
     ZObject [(''websetId'', ZString),
       (''exportId'', ZString)]"
| "inputSchema update_webset_item_exa =
     ZObject [(''websetId'', ZString),
       (''itemId'', ZString),
       (''metadata'', ZOptional (ZRecord ZString)),
       (''verification'', ZOptional (ZObject [(''status'', ZEnum verification_statuses), (''reasoning'', ZOptional ZString)])),
       (''customFields'', ZOptional (ZRecord ZAny))]"
| "inputSchema batch_update_items_exa =
     ZObject [(''websetId'', ZString),
       (''itemIds'', ZArray ZString),
       (''updates'', ZObject [(''metadata'', ZOptional (ZRecord ZString)),
          (''addTags'', ZOptional (ZArray ZString)),
          (''removeTags'', ZOptional (ZArray ZString)),
          (''customFields'', ZOptional (ZRecord ZAny))])]"
| "inputSchema batch_delete_items_exa =
     ZObject [(''websetId'', ZString),
       (''itemIds'', ZArray ZString)]"
| "inputSchema batch_verify_items_exa =
     ZObject [(''websetId'', ZString),
       (''itemIds'', ZArray ZString),
       (''status'', ZEnum verification_statuses),
       (''reasoning'', ZOptional ZString)]"
| "inputSchema list_webset_items_exa =
     ZObject [(''websetId'', ZString),
       (''cursor'', ZOptional ZString),
       (''limit'', ZOptional ZNumber),
       (''type'', ZOptional ZString),
       (''verificationStatus'', ZOptional (ZEnum verification_statuses)),
       (''hasEnrichedData'', ZOptional ZBoolean),
       (''createdAfter'', ZOptional ZString),
       (''createdBefore'', ZOptional ZString),
       (''updatedAfter'', ZOptional ZString),
       (''updatedBefore'', ZOptional ZString)]"
| "inputSchema get_webset_item_exa =
     ZObject [(''websetId'', ZString),
       (''itemId'', ZString)]"
| "inputSchema delete_webset_item_exa =
     ZObject [(''websetId'', ZString),
       (''itemId'', ZString)]"
| "inputSchema search_webset_items_exa =
     ZObject [(''websetId'', ZString),
       (''filters'', ZOptional (ZObject [(''type'', ZOptional ZString),
          (''verificationStatus'', ZOptional (ZEnum verification_statuses)),
          (''hasEnrichedData'', ZOptional ZBoolean),
          (''enrichmentStatus'', ZOptional (ZRecord (ZEnum [''completed'', ''pending'', ''failed'']))),
          (''createdAfter'', ZOptional ZString),
          (''createdBefore'', ZOptional ZString),
          (''updatedAfter'', ZOptional ZString),
          (''updatedBefore'', ZOptional ZString),
          (''metadata'', ZOptional (ZRecord ZString)),
          (''urlPattern'', ZOptional ZString),
          (''titlePattern'', ZOptional ZString)])),
       (''cursor'', ZOptional ZString),
       (''limit'', ZOptional ZNumber)]"
| "inputSchema create_import_exa =
     ZObject [(''sourceUrl'', ZString),
       (''fileType'', ZOptional (ZEnum [''csv'', ''json'', ''txt''])),
       (''websetId'', ZOptional ZString),
       (''metadata'', ZOptional (ZRecord ZString))]"
| "inputSchema get_import_exa =
     ZObject [(''importId'', ZString)]"
| "inputSchema list_imports_exa =
     ZObject [(''status'', ZOptional (ZEnum [''pending'', ''processing'', ''completed'', ''failed'', ''canceled''])),
       (''websetId'', ZOptional ZString),
       (''cursor'', ZOptional ZString),
       (''limit'', ZOptional ZNumber)]"
| "inputSchema update_import_exa =
     ZObject [(''importId'', ZString),
       (''status'', ZEnum [''canceled''])]"
| "inputSchema delete_import_exa =
     ZObject [(''importId'', ZString)]"
| "inputSchema create_webset_monitor_exa =
     ZObject [(''websetId'', ZString),
       (''cadence'', ZEnum cadences),
       (''query'', ZOptional ZString),
       (''searchBehavior'', ZOptional (ZEnum [''override'', ''append''])),
       (''metadata'', ZOptional (ZRecord ZString))]"
| "inputSchema update_webset_monitor_exa =
     ZObject [(''websetId'', ZString),
       (''monitorId'', ZString),
       (''cadence'', ZOptional (ZEnum cadences)),
       (''query'', ZOptional ZString),
       (''status'', ZOptional (ZEnum [''active'', ''paused''])),
       (''searchBehavior'', ZOptional (ZEnum [''override'', ''append''])),
       (''metadata'', ZOptional (ZRecord ZString))]"
| "inputSchema get_webset_monitor_exa =
     ZObject [(''websetId'', ZString),
       (''monitorId'', ZString)]"
| "inputSchema list_webset_monitors_exa =
     ZObject [(''websetId'', ZString),
       (''status'', ZOptional (ZEnum [''active'', ''paused'', ''completed'', ''error''])),
       (''cursor'', ZOptional ZString),
       (''limit'', ZOptional ZNumber)]"
| "inputSchema delete_webset_monitor_exa =
     ZObject [(''websetId'', ZString),
       (''monitorId'', ZString)]"
| "inputSchema list_monitor_runs_exa =
     ZObject [(''websetId'', ZString),
       (''monitorId'', ZString),
       (''status'', ZOptional (ZEnum [''started'', ''completed'', ''failed''])),
       (''cursor'', ZOptional ZString),
       (''limit'', ZOptional ZNumber)]"
| "inputSchema get_monitor_run_exa =
     ZObject [(''websetId'', ZString),
       (''monitorId'', ZString),
       (''runId'', ZString)]"
| "inputSchema create_webhook_exa =
     ZObject [(''url'', ZString),
       (''events'', ZArray (ZEnum create_webhook_events)),
       (''description'', ZOptional ZString),
       (''secret'', ZOptional ZString)]"
| "inputSchema get_webhook_exa =
     ZObject [(''webhookId'', ZString)]"
| "inputSchema list_webhooks_exa =
     ZObject [(''status'', ZOptional (ZEnum [''active'', ''inactive'', ''error''])),
       (''cursor'', ZOptional ZString),
       (''limit'', ZOptional ZNumber)]"
| "inputSchema update_webhook_exa =
     ZObject [(''webhookId'', ZString),
       (''url'', ZOptional ZString),
       (''events'', ZOptional (ZArray (ZEnum update_webhook_events))),
       (''description'', ZOptional ZString),
       (''status'', ZOptional (ZEnum [''active'', ''inactive'']))]"
| "inputSchema delete_webhook_exa =
     ZObject [(''webhookId'', ZString)]"
| "inputSchema list_webhook_attempts_exa =
     ZObject [(''webhookId'', ZString),
       (''eventType'', ZOptional ZString),
       (''cursor'', ZOptional ZString),
       (''limit'', ZOptional ZNumber)]"
| "inputSchema list_events_exa =
     ZObject [(''eventType'', ZOptional ZString),
       (''websetId'', ZOptional ZString),
       (''cursor'', ZOptional ZString),
       (''limit'', ZOptional ZNumber)]"
| "inputSchema get_event_exa =
     ZObject [(''eventId'', ZString)]"

section \<open>Dispatch\<close>

text \<open>
  Modelled from the spec: the code that checks the arguments of an invocation against the
  declared shape and only then calls the handler is the registration machinery behind
  \<^verbatim>\<open>server.tool\<close> and \<^verbatim>\<open>server.addTool\<close>, which is not part of the sources at hand. The
  spec: the Argument Validator "validates caller-supplied arguments against the
  Operation's declared shape [...] before constructing any request. On failure, produces
  a ValidationError outcome without any network call"; a validation failure has the
  "same shape as transport failure", \<^verbatim>\<open>{success: false, error: <message>}\<close>.
\<close>

definition issue_message :: "issue \<Rightarrow> string" where
  "issue_message i =
     (case i of
        Required \<Rightarrow> ''Required''
      | InvalidType \<Rightarrow> ''Invalid type''
      | InvalidEnumValue s \<Rightarrow> ''Invalid enum value: '' @ s)"

definition validation_failure :: "issue \<Rightarrow> outcome" where
  "validation_failure i = Envelope [(''success'', JBool False), (''error'', JStr (issue_message i))]"

definition invoke :: "operation \<Rightarrow> host \<Rightarrow> js \<Rightarrow> (thrown + outcome) run" where
  "invoke op h raw =
     (case parse (inputSchema op) raw of
        Inl i \<Rightarrow> (Inr (validation_failure i), [])
      | Inr args \<Rightarrow> handler op h args)"

section \<open>Notions of the specification, and example inputs\<close>

text \<open>The export jobs of a page that have a given status.\<close>

definition with_status :: "string \<Rightarrow> js list \<Rightarrow> js list" where
  "with_status s xs = filter (\<lambda>e. oget e ''status'' = JStr s) xs"

text \<open>An example host: path templates as the endpoint table of the service documents
  them, a configured key, and a remote service given as a function.\<close>

definition example_endpoints :: endpoints where
  "example_endpoints = \<lparr>IMPORTS = ''/imports'', IMPORT_BY_ID = ''/imports/:importId'',
     WEBSET_MONITORS = ''/websets/:websetId/monitors'',
     WEBSET_MONITOR_BY_ID = ''/websets/:websetId/monitors/:monitorId'',
     WEBSET_MONITOR_RUNS = ''/websets/:websetId/monitors/:monitorId/runs'',
     WEBHOOKS = ''/webhooks'', WEBHOOK_BY_ID = ''/webhooks/:webhookId'',
     WEBHOOK_ATTEMPTS = ''/webhooks/:webhookId/attempts'',
     EVENTS = ''/events'', EVENT_BY_ID = ''/events/:eventId'',
     WEBSET_ITEMS = ''/websets/:websetId/items'',
     WEBSET_ITEM_BY_ID = ''/websets/:websetId/items/:itemId'',
     WEBSET_EXPORTS = ''/websets/:websetId/exports'',
     WEBSET_EXPORT_BY_ID = ''/websets/:websetId/exports/:exportId''\<rparr>"

definition example_host ::
  "(request \<Rightarrow> thrown + response) \<Rightarrow> (string \<Rightarrow> string \<Rightarrow> thrown + (string \<Rightarrow> bool)) \<Rightarrow> host" where
  "example_host remote engine = \<lparr>config = Some (Some ''key-1''), EXA_API_KEY = None,
     API_CONFIG = \<lparr>BASE_URL = ''https://api.exa.ai'', REQUEST_TIMEOUT = 25000,
                    ENDPOINTS = example_endpoints\<rparr>,
     axios = remote, RegExp = engine\<rparr>"

definition no_regexp :: "string \<Rightarrow> string \<Rightarrow> thrown + (string \<Rightarrow> bool)" where
  "no_regexp pattern flags = Inl (JsError ''SyntaxError'')"

definition ok :: "js \<Rightarrow> request \<Rightarrow> thrown + response" where
  "ok payload req = Inr \<lparr>status = 200, statusText = ''OK'', data = payload\<rparr>"

definition three_exports :: "js list" where
  "three_exports = [JObj [(''id'', JStr ''e1''), (''status'', JStr ''completed'')],
                    JObj [(''id'', JStr ''e2''), (''status'', JStr ''pending'')],
                    JObj [(''id'', JStr ''e3''), (''status'', JStr ''failed'')]]"

definition three_exports_page :: js where
  "three_exports_page = JObj [(''data'', JArr three_exports), (''hasMore'', JBool False)]"

text \<open>The batch tools and the words with which each reports its count.\<close>

definition batch_tools :: "operation list" where
  "batch_tools = [batch_update_items_exa, batch_delete_items_exa, batch_verify_items_exa]"

fun batch_report :: "operation \<Rightarrow> string" where
  "batch_report batch_update_items_exa = ''Successfully updated ''"
| "batch_report batch_delete_items_exa = ''Successfully deleted ''"
| "batch_report batch_verify_items_exa = ''Successfully updated verification status for ''"
| "batch_report other = []"

text \<open>A remote answer to a batch call that reports a failure for two of three items.\<close>

definition partial_failure :: js where
  "partial_failure = JObj [(''deleted'', JNum 1),
     (''failed'', JArr [JObj [(''id'', JStr ''i2''), (''reason'', JStr ''locked'')],
                        JObj [(''id'', JStr ''i3''), (''reason'', JStr ''not found'')]])]"

text \<open>The fields of an item that the search result lists.\<close>

definition item_fields :: "js \<Rightarrow> js" where
  "item_fields item =
     JObj [(''id'', oget item ''id''), (''url'', oget item ''url''), (''title'', oget item ''title''),
           (''type'', oget item ''type''), (''verification'', oget item ''verification''),
           (''enrichedData'', oget item ''enrichedData''), (''metadata'', oget item ''metadata''),
           (''createdAt'', oget item ''createdAt''), (''updatedAt'', oget item ''updatedAt'')]"

text \<open>A pattern filter of a search, once compiled: absent (or the empty string), or the
  \<^verbatim>\<open>test\<close> of the expression compiled with the flag \<^verbatim>\<open>i\<close>.\<close>

definition compiled :: "host \<Rightarrow> js \<Rightarrow> thrown + (string \<Rightarrow> bool) option" where
  "compiled h pattern =
     (if truthy pattern
      then (case RegExp h (to_str pattern) ''i'' of Inl e \<Rightarrow> Inl e | Inr t \<Rightarrow> Inr (Some t))
      else Inr None)"

text \<open>An item passes the URL filter when the expression matches its \<open>url\<close>, and the title
  filter when it has a title and the expression matches it.\<close>

definition url_passes :: "(string \<Rightarrow> bool) option \<Rightarrow> js \<Rightarrow> bool" where
  "url_passes t item = (case t of None \<Rightarrow> True | Some matches \<Rightarrow> matches (to_str (oget item ''url'')))"

definition title_passes :: "(string \<Rightarrow> bool) option \<Rightarrow> js \<Rightarrow> bool" where
  "title_passes t item =
     (case t of None \<Rightarrow> True
      | Some matches \<Rightarrow> truthy (oget item ''title'') \<and> matches (to_str (oget item ''title'')))"

definition passes :: "(string \<Rightarrow> bool) option \<Rightarrow> (string \<Rightarrow> bool) option \<Rightarrow> js \<Rightarrow> bool" where
  "passes ut tt item = (url_passes ut item \<and> title_passes tt item)"

text \<open>The result of a search that kept the items \<open>kept\<close> of a page.\<close>

definition search_output :: "js \<Rightarrow> response \<Rightarrow> js list \<Rightarrow> outcome" where
  "search_output args resp kept =
     ToolResult (Stringify (JObj [(''websetId'', oget args ''websetId''),
                                  (''matchingItems'', JNum (int (length kept))),
                                  (''hasMore'', oget (data resp) ''hasMore''),
                                  (''nextCursor'', oget (data resp) ''nextCursor''),
                                  (''filters'', oget args ''filters''),
                                  (''items'', JArr (map item_fields kept))])) False"

text \<open>Letter case, for the ASCII letters.\<close>

definition lower :: "char \<Rightarrow> char" where
  "lower c =
     (case map_of (zip ''ABCDEFGHIJKLMNOPQRSTUVWXYZ'' ''abcdefghijklmnopqrstuvwxyz'') c of
        None \<Rightarrow> c | Some d \<Rightarrow> d)"

text \<open>Two values that are the same string up to letter case (or the same value).\<close>

fun same_but_case :: "js \<Rightarrow> js \<Rightarrow> bool" where
  "same_but_case (JStr s) (JStr t) = (map lower s = map lower t)"
| "same_but_case v w = (v = w)"

text \<open>What the flag \<^verbatim>\<open>i\<close> promises of a regular-expression engine: an expression compiled
  with it does not tell apart two strings that differ only in letter case.\<close>

definition ignores_case :: "(string \<Rightarrow> string \<Rightarrow> thrown + (string \<Rightarrow> bool)) \<Rightarrow> bool" where
  "ignores_case engine =
     (\<forall>p matches s t. engine p ''i'' = Inr matches \<longrightarrow> map lower s = map lower t \<longrightarrow>
                       matches s = matches t)"

text \<open>An example engine for a fragment of the pattern language: an optional leading
  \<^verbatim>\<open>^\<close>, then literal characters, a backslash making the next character literal. Without
  \<^verbatim>\<open>^\<close> the literal may occur anywhere.\<close>

fun unescape :: "string \<Rightarrow> string" where
  "unescape (c # d # cs) = (if c = CHR 0x5C then d # unescape cs else c # unescape (d # cs))"
| "unescape cs = cs"

fun occurs :: "string \<Rightarrow> string \<Rightarrow> bool" where
  "occurs lit [] = (lit = [])"
| "occurs lit (c # cs) = (take (length lit) (c # cs) = lit \<or> occurs lit cs)"

definition literal_engine :: "string \<Rightarrow> string \<Rightarrow> thrown + (string \<Rightarrow> bool)" where
  "literal_engine pattern flags =
     (let fold = (if CHR ''i'' \<in> set flags then map lower else id)
      in if take 1 pattern = ''^''
         then Inr (\<lambda>s. take (length (unescape (drop 1 pattern))) (fold s)
                        = fold (unescape (drop 1 pattern)))
         else Inr (\<lambda>s. occurs (fold (unescape pattern)) (fold s)))"

text \<open>The scenario of the specification: the pattern \<^verbatim>\<open>^https://linkedin\.com\<close> and a page of
  five items, two of which have a matching URL.\<close>

definition linkedin_pattern :: string where
  "linkedin_pattern = ''^https://linkedin'' @ [CHR 0x5C] @ ''.com''"

definition item_at :: "string \<Rightarrow> string \<Rightarrow> js" where
  "item_at i u = JObj [(''id'', JStr i), (''url'', JStr u)]"

definition five_items :: "js list" where
  "five_items = [item_at ''i1'' ''https://linkedin.com/in/ada'',
                 item_at ''i2'' ''https://example.com/about'',
                 item_at ''i3'' ''http://linkedin.com/in/bob'',
                 item_at ''i4'' ''https://LinkedIn.com/company/exa'',
                 item_at ''i5'' ''https://www.linkedin.com/in/eve'']"

definition five_items_page :: js where
  "five_items_page = JObj [(''data'', JArr five_items), (''hasMore'', JBool True),
                           (''nextCursor'', JStr ''c2'')]"

definition linkedin_search :: js where
  "linkedin_search = JObj [(''websetId'', JStr ''ws_1''),
                           (''filters'', JObj [(''urlPattern'', JStr linkedin_pattern)])]"

text \<open>A page with one item that has a title and one that has none, and a search with the
  empty string as its title pattern.\<close>

definition titled_items :: "js list" where
  "titled_items = [JObj [(''id'', JStr ''i1''), (''url'', JStr ''https://a.example''),
                         (''title'', JStr ''Ada'')],
                   JObj [(''id'', JStr ''i2''), (''url'', JStr ''https://b.example''),
                         (''title'', Null)]]"

definition titled_page :: js where
  "titled_page = JObj [(''data'', JArr titled_items), (''hasMore'', JBool False)]"

definition title_search :: "string \<Rightarrow> js" where
  "title_search p = JObj [(''websetId'', JStr ''ws_1''),
                          (''filters'', JObj [(''titlePattern'', JStr p)])]"

text \<open>What that pattern tests under the flag \<^verbatim>\<open>i\<close>.\<close>

definition linkedin_test :: "string \<Rightarrow> bool" where
  "linkedin_test s = (take (length ''https://linkedin.com'') (map lower s) = ''https://linkedin.com'')"

text \<open>An outcome is flagged as an error by \<^verbatim>\<open>isError: true\<close> or by \<^verbatim>\<open>success: false\<close>.\<close>

fun error_flagged :: "outcome \<Rightarrow> bool" where
  "error_flagged (ToolResult t isError) = isError"
| "error_flagged (Envelope properties) = (lookup properties ''success'' = JBool False)"

text \<open>The tools registered with \<^verbatim>\<open>server.addTool\<close> (exports, item update, batch), and
  the four item tools registered with \<^verbatim>\<open>server.tool\<close>.\<close>

definition direct_tools :: "operation list" where
  "direct_tools = [create_export_exa, get_export_exa, list_exports_exa, delete_export_exa,
                   update_webset_item_exa, batch_update_items_exa, batch_delete_items_exa,
                   batch_verify_items_exa]"

definition item_tools :: "operation list" where
  "item_tools = [list_webset_items_exa, get_webset_item_exa, delete_webset_item_exa,
                 search_webset_items_exa]"

text \<open>A remote service that answers every call with an HTTP error: axios rejects with its
  own message and the response attached.\<close>

definition rejecting :: "string \<Rightarrow> response \<Rightarrow> request \<Rightarrow> thrown + response" where
  "rejecting message resp req = Inl (AxiosError message (Some resp))"

definition not_found :: response where
  "not_found = \<lparr>status = 404, statusText = ''Not Found'',
                 data = JObj [(''error'', JStr ''Import not found'')]\<rparr>"

definition server_error :: response where
  "server_error = \<lparr>status = 500, statusText = ''Internal Server Error'',
                    data = JObj [(''code'', JNum 7)]\<rparr>"

text \<open>The words with which a tool registered with \<^verbatim>\<open>server.tool\<close> starts its error text.\<close>

fun label :: "operation \<Rightarrow> string" where
  "label list_webset_items_exa = ''List items''"
| "label get_webset_item_exa = ''Get item''"
| "label delete_webset_item_exa = ''Delete item''"
| "label search_webset_items_exa = ''Search items''"
| "label create_import_exa = ''Create import''"
| "label get_import_exa = ''Get import''"
| "label list_imports_exa = ''List imports''"
| "label update_import_exa = ''Update import''"
| "label delete_import_exa = ''Delete import''"
| "label create_webset_monitor_exa = ''Create monitor''"
| "label update_webset_monitor_exa = ''Update monitor''"
| "label get_webset_monitor_exa = ''Get monitor''"
| "label list_webset_monitors_exa = ''List monitors''"
| "label delete_webset_monitor_exa = ''Delete monitor''"
| "label list_monitor_runs_exa = ''List monitor runs''"
| "label get_monitor_run_exa = ''Get monitor run''"
| "label create_webhook_exa = ''Create webhook''"
| "label get_webhook_exa = ''Get webhook''"
| "label list_webhooks_exa = ''List webhooks''"
| "label update_webhook_exa = ''Update webhook''"
| "label delete_webhook_exa = ''Delete webhook''"
| "label list_webhook_attempts_exa = ''List webhook attempts''"
| "label list_events_exa = ''List events''"
| "label get_event_exa = ''Get event''"
| "label other = []"

text \<open>A request carries the authentication header.\<close>

definition keyed :: "host \<Rightarrow> request \<Rightarrow> bool" where
  "keyed h req = ((''x-api-key'', api_key h) \<in> set (headers req))"

text \<open>The list and search tools, the query parameters each may send, and the argument a
  parameter comes from (search takes its filters from the \<open>filters\<close> object).\<close>

definition list_tools :: "operation list" where
  "list_tools = [list_webset_items_exa, search_webset_items_exa, list_exports_exa,
                 list_imports_exa, list_webset_monitors_exa, list_monitor_runs_exa,
                 list_webhooks_exa, list_webhook_attempts_exa, list_events_exa]"

definition item_query_keys :: "string list" where
  "item_query_keys = [''cursor'', ''limit'', ''type'', ''verificationStatus'', ''hasEnrichedData'',
                      ''createdAfter'', ''createdBefore'', ''updatedAfter'', ''updatedBefore'']"

fun query_keys :: "operation \<Rightarrow> string list" where
  "query_keys list_webset_items_exa = item_query_keys"
| "query_keys search_webset_items_exa = item_query_keys"
| "query_keys list_exports_exa = [''limit'', ''cursor'']"
| "query_keys list_imports_exa = [''status'', ''websetId'', ''cursor'', ''limit'']"
| "query_keys list_webset_monitors_exa = [''status'', ''cursor'', ''limit'']"
| "query_keys list_monitor_runs_exa = [''status'', ''cursor'', ''limit'']"
| "query_keys list_webhooks_exa = [''status'', ''cursor'', ''limit'']"
| "query_keys list_webhook_attempts_exa = [''eventType'', ''cursor'', ''limit'']"
| "query_keys list_events_exa = [''eventType'', ''websetId'', ''cursor'', ''limit'']"
| "query_keys other = []"

definition argument :: "operation \<Rightarrow> js \<Rightarrow> string \<Rightarrow> js" where
  "argument op args k =
     (if op = search_webset_items_exa \<and> k \<noteq> ''cursor'' \<and> k \<noteq> ''limit''
      then oget (oget args ''filters'') k else oget args k)"

text \<open>The query string axios makes of the parameters: the pairs of a
  \<^verbatim>\<open>URLSearchParams\<close> as they are; of a plain object, the properties that are neither
  \<^verbatim>\<open>undefined\<close> nor \<^verbatim>\<open>null\<close>.\<close>

fun serialized :: "query \<Rightarrow> (string \<times> string) list" where
  "serialized NoParams = []"
| "serialized (URLSearchParams ps) = ps"
| "serialized (ParamsObject kvs) =
     map (\<lambda>kv. (fst kv, to_str (snd kv))) (filter (\<lambda>kv. \<not> nullish (snd kv)) kvs)"

text \<open>When the code sends a parameter for an argument: \<open>hasEnrichedData\<close> whenever it is
  not \<^verbatim>\<open>undefined\<close>, the \<open>limit\<close> of list-exports whenever it is set, any other when it
  is truthy.\<close>

definition supplied :: "operation \<Rightarrow> string \<Rightarrow> js \<Rightarrow> bool" where
  "supplied op k v =
     (if k = ''hasEnrichedData'' then v \<noteq> Undefined
      else if op = list_exports_exa \<and> k = ''limit'' then \<not> nullish v
      else truthy v)"

definition empty_filters_search :: js where
  "empty_filters_search = JObj [(''websetId'', JStr ''ws_1''), (''limit'', JNum 0),
     (''filters'', JObj [(''type'', JStr ''''), (''urlPattern'', JStr ''linkedin'')])]"

definition enriched_false_search :: js where
  "enriched_false_search = JObj [(''websetId'', JStr ''ws_1''), (''limit'', JNum 50),
     (''filters'', JObj [(''hasEnrichedData'', JBool False),
        (''metadata'', JObj [(''source'', JStr ''crm'')])])]"

text \<open>An HTTP error whose body has an \<open>error\<close> field that does not convert to a string:
  the JSON \<^verbatim>\<open>{"error": {"toString": 0}}\<close>.\<close>

definition unprintable_error :: response where
  "unprintable_error = \<lparr>status = 400, statusText = ''Bad Request'',
     data = JObj [(''error'', JObj [(''toString'', JNum 0)])]\<rparr>"

text \<open>What the code does with one query parameter: a supplied argument appears in the
  query string with its string form, and for any other argument the parameter is absent.\<close>

definition query_rule :: "operation \<Rightarrow> js \<Rightarrow> request \<Rightarrow> string \<Rightarrow> bool" where
  "query_rule op args req k =
     (if supplied op k (argument op args k)
      then (k, to_str (argument op args k)) \<in> set (serialized (params req))
      else k \<notin> fst ` set (serialized (params req)))"

section \<open>Basic facts\<close>

lemma and_then_Inr [simp]: "and_then (Inr x) f = f x"
  by (simp add: and_then_def)

lemma and_then_Inl [simp]: "and_then (Inl e) f = Inl e"
  by (simp add: and_then_def)

lemma nullish_simps [simp]:
  "nullish Undefined" "nullish Null" "\<not> nullish (JBool b)" "\<not> nullish (JNum n)"
  "\<not> nullish (JStr s)" "\<not> nullish (JArr xs)" "\<not> nullish (JObj kvs)"
  by (simp_all add: nullish_def)

lemma get_present [simp]: "\<not> nullish v \<Longrightarrow> get v k = Inr (oget v k)"
  by (simp add: get_def)

lemma get_nullish [simp]: "nullish v \<Longrightarrow> get v k = Inl TypeError"
  by (simp add: get_def)

lemma oget_defined: "oget v k \<noteq> Undefined \<Longrightarrow> \<not> nullish v"
  by (cases v) auto

lemma and_then_eq_Inr: "and_then m f = Inr y \<longleftrightarrow> (\<exists>x. m = Inr x \<and> f x = Inr y)"
  by (cases m) simp_all

lemma try_catch_Inr [simp]: "try_catch (Inr r, tr) c = (Inr r, tr)"
  by (simp add: try_catch_def)

lemma try_catch_Inl [simp]: "try_catch (Inl e, tr) c = (c e, tr)"
  by (simp add: try_catch_def)

lemma attempt_resolved:
  "build = Inr req \<Longrightarrow> axios h req = Inr resp \<Longrightarrow> attempt build h finish = (finish resp, [req])"
  by (simp add: attempt_def)

lemma attempt_rejected:
  "build = Inr req \<Longrightarrow> axios h req = Inl e \<Longrightarrow> attempt build h finish = (Inl e, [req])"
  by (simp add: attempt_def)

lemma attempt_not_built: "build = Inl e \<Longrightarrow> attempt build h finish = (Inl e, [])"
  by (simp add: attempt_def)

lemma filter_js_total:
  "list_all (\<lambda>x. \<exists>b. p x = Inr b) xs \<Longrightarrow>
   filter_js p xs = Inr (filter (\<lambda>x. p x = Inr True) xs)"
  by (induction xs) auto

lemma snd_try_catch [simp]: "snd (try_catch block c) = snd block"
  by (simp add: try_catch_def split: sum.split)

lemma snd_attempt: "snd (attempt build h finish) = (case build of Inl e \<Rightarrow> [] | Inr req \<Rightarrow> [req])"
  by (simp add: attempt_def split: sum.split)

lemma handler_requests:
  "snd (handler op h args) =
     (if destructures op \<and> nullish args then []
      else case request_of op h args of Inl e \<Rightarrow> [] | Inr req \<Rightarrow> [req])"
  by (simp add: handler_def destructured_def try_block_def snd_attempt)

lemma handler_resolved:
  assumes "\<not> nullish args" and "request_of op h args = Inr req" and "axios h req = Inr resp"
    and "result_of op h args resp = Inr out"
  shows "fst (handler op h args) = Inr out"
  using assms
  by (simp add: handler_def destructured_def try_block_def attempt_resolved)

section \<open>The summary of list-exports\<close>

lemma count_status_page:
  assumes "list_all (\<lambda>e. \<not> nullish e) xs"
  shows "count_status (JArr xs) s = Inr (JNum (int (length (with_status s xs))))"
proof -
  let ?p = "\<lambda>e. and_then (get e ''status'') (\<lambda>st. Inr (st = JStr s))"
  have "list_all (\<lambda>x. \<exists>b. ?p x = Inr b) xs"
    using assms by (induction xs) auto
  then have "filter_js ?p xs = Inr (filter (\<lambda>x. ?p x = Inr True) xs)"
    by (rule filter_js_total)
  moreover have "filter (\<lambda>x. ?p x = Inr True) xs = with_status s xs"
    unfolding with_status_def using assms by (induction xs) auto
  ultimately show ?thesis
    by (simp add: count_status_def as_array_def)
qed

lemma list_exports_result_page:
  assumes "oget (data resp) ''data'' = JArr xs" and "list_all (\<lambda>e. \<not> nullish e) xs"
  shows "list_exports_result resp =
     Inr (Envelope [(''success'', JBool True), (''data'', JArr xs),
                    (''hasMore'', oget (data resp) ''hasMore''),
                    (''nextCursor'', oget (data resp) ''nextCursor''),
                    (''summary'', JObj [(''total'', JNum (int (length xs))),
                       (''completed'', JNum (int (length (with_status ''completed'' xs)))),
                       (''pending'', JNum (int (length (with_status ''pending'' xs)))),
                       (''processing'', JNum (int (length (with_status ''processing'' xs)))),
                       (''failed'', JNum (int (length (with_status ''failed'' xs))))])])"
proof -
  have "\<not> nullish (data resp)"
    using assms(1) by (intro oget_defined [of _ "''data''"]) simp
  then show ?thesis
    using assms by (simp add: list_exports_result_def count_status_page length_of_def)
qed

text \<open>
  Claim C6. List-exports, when the call resolves with a page of export jobs: the result
  carries the page, the server's \<open>hasMore\<close> and \<open>nextCursor\<close>, and a summary in which
  \<open>total\<close> is the length of the page and each of \<open>completed\<close>, \<open>pending\<close>,
  \<open>processing\<close>, \<open>failed\<close> is the number of jobs of the page with that status. The
  witness is the page with one completed, one pending and one failed job: the summary
  is total 3, completed 1, pending 1, processing 0, failed 1.
\<close>

theorem list_exports_summary:
  assumes "list_exports_request h args = Inr req" and "axios h req = Inr resp"
    and "oget (data resp) ''data'' = JArr xs" and "list_all (\<lambda>e. \<not> nullish e) xs"
  shows "handler list_exports_exa h args =
     (Inr (Envelope [(''success'', JBool True), (''data'', JArr xs),
                     (''hasMore'', oget (data resp) ''hasMore''),
                     (''nextCursor'', oget (data resp) ''nextCursor''),
                     (''summary'', JObj [(''total'', JNum (int (length xs))),
                        (''completed'', JNum (int (length (with_status ''completed'' xs)))),
                        (''pending'', JNum (int (length (with_status ''pending'' xs)))),
                        (''processing'', JNum (int (length (with_status ''processing'' xs)))),
                        (''failed'', JNum (int (length (with_status ''failed'' xs))))])]),
      [req])"
  using assms
  by (simp add: handler_def try_block_def attempt_resolved list_exports_result_page)

theorem list_exports_summary_witness:
  "fst (handler list_exports_exa (example_host (ok three_exports_page) no_regexp)
          (JObj [(''websetId'', JStr ''ws_1''), (''limit'', JNum 20)])) =
   Inr (Envelope [(''success'', JBool True), (''data'', JArr three_exports),
                  (''hasMore'', JBool False), (''nextCursor'', Undefined),
                  (''summary'', JObj [(''total'', JNum 3), (''completed'', JNum 1),
                                      (''pending'', JNum 1), (''processing'', JNum 0),
                                      (''failed'', JNum 1)])])"
proof -
  let ?h = "example_host (ok three_exports_page) no_regexp"
  let ?args = "JObj [(''websetId'', JStr ''ws_1''), (''limit'', JNum 20)]"
  obtain req where r: "list_exports_request ?h ?args = Inr req"
    by (simp add: list_exports_request_def Let_def)
  have a: "axios ?h req = Inr \<lparr>status = 200, statusText = ''OK'', data = three_exports_page\<rparr>"
    by (simp add: example_host_def ok_def)
  have d: "oget (data \<lparr>status = 200, statusText = ''OK'', data = three_exports_page\<rparr>) ''data''
           = JArr three_exports"
    by (simp add: three_exports_page_def)
  have n: "list_all (\<lambda>e. \<not> nullish e) three_exports"
    by (simp add: three_exports_def)
  show ?thesis
    using list_exports_summary [OF r a d n]
    by (simp add: three_exports_page_def with_status_def three_exports_def)
qed

section \<open>Batch tools\<close>

lemma to_str_length [simp]: "to_str (JNum (int n)) = digits n"
  by simp

lemma batch_result_array:
  "oget args ''itemIds'' = JArr ids \<Longrightarrow>
   batch_result done args resp =
     Inr (Envelope [(''success'', JBool True), (''data'', data resp),
                    (''message'', JStr (done @ digits (length ids) @ '' items''))])"
  by (simp add: batch_result_def length_of_def)

lemma batch_request:
  assumes "op \<in> set batch_tools" and "\<not> nullish args"
  shows "\<exists>req sent. request_of op h args = Inr req \<and> body req = Some sent
           \<and> oget sent ''itemIds'' = oget args ''itemIds''"
  using assms
  by (auto simp: batch_tools_def batch_update_items_request_def batch_delete_items_request_def
                 batch_verify_items_request_def direct_call_def)

lemma batch_result_of:
  "op \<in> set batch_tools \<Longrightarrow> result_of op h args resp = batch_result (batch_report op) args resp"
  by (auto simp: batch_tools_def)

text \<open>
  Claim C7. A batch tool (batch update, batch delete, batch verify) called with an array
  of item identifiers issues exactly one request, whose body carries the whole array,
  whether or not the call then succeeds; and whenever that call resolves, whatever the
  response body says about the single items, the result is the success envelope whose
  message reports the number of identifiers submitted.
\<close>

theorem batch_single_request:
  assumes "op \<in> set batch_tools" and "oget args ''itemIds'' = JArr ids"
  shows "\<exists>req sent. snd (handler op h args) = [req] \<and> body req = Some sent
           \<and> oget sent ''itemIds'' = JArr ids
           \<and> (\<forall>resp. axios h req = Inr resp \<longrightarrow>
                 fst (handler op h args) =
                   Inr (Envelope [(''success'', JBool True), (''data'', data resp),
                                  (''message'', JStr (batch_report op @ digits (length ids) @ '' items''))]))"
proof -
  have present: "\<not> nullish args"
    using assms(2) by (intro oget_defined [of _ "''itemIds''"]) simp
  obtain req sent where r: "request_of op h args = Inr req" and b: "body req = Some sent"
      and s: "oget sent ''itemIds'' = oget args ''itemIds''"
    using batch_request [OF assms(1) present] by blast
  have "snd (handler op h args) = [req]"
    using present r by (simp add: handler_requests)
  moreover have "fst (handler op h args) =
        Inr (Envelope [(''success'', JBool True), (''data'', data resp),
                       (''message'', JStr (batch_report op @ digits (length ids) @ '' items''))])"
    if "axios h req = Inr resp" for resp
    using present r that
    by (rule handler_resolved) (simp add: batch_result_of [OF assms(1)] batch_result_array [OF assms(2)])
  ultimately show ?thesis
    using b s assms(2) by auto
qed

theorem batch_single_request_witness:
  "length (snd (handler batch_delete_items_exa (example_host (ok partial_failure) no_regexp)
             (JObj [(''websetId'', JStr ''ws_1''),
                    (''itemIds'', JArr [JStr ''i1'', JStr ''i2'', JStr ''i3''])]))) = 1
   \<and> fst (handler batch_delete_items_exa (example_host (ok partial_failure) no_regexp)
             (JObj [(''websetId'', JStr ''ws_1''),
                    (''itemIds'', JArr [JStr ''i1'', JStr ''i2'', JStr ''i3''])])) =
       Inr (Envelope [(''success'', JBool True), (''data'', partial_failure),
                      (''message'', JStr ''Successfully deleted 3 items'')])"
proof -
  let ?h = "example_host (ok partial_failure) no_regexp"
  let ?args = "JObj [(''websetId'', JStr ''ws_1''),
                     (''itemIds'', JArr [JStr ''i1'', JStr ''i2'', JStr ''i3''])]"
  have m: "batch_delete_items_exa \<in> set batch_tools"
    by (simp add: batch_tools_def)
  have i: "oget ?args ''itemIds'' = JArr [JStr ''i1'', JStr ''i2'', JStr ''i3'']"
    by simp
  obtain req where one: "snd (handler batch_delete_items_exa ?h ?args) = [req]"
    and "\<forall>resp. axios ?h req = Inr resp \<longrightarrow>
           fst (handler batch_delete_items_exa ?h ?args) =
             Inr (Envelope [(''success'', JBool True), (''data'', data resp),
                    (''message'', JStr (batch_report batch_delete_items_exa
                        @ digits (length [JStr ''i1'', JStr ''i2'', JStr ''i3'']) @ '' items''))])"
    using batch_single_request [OF m i, of ?h] by blast
  moreover have "axios ?h req = Inr \<lparr>status = 200, statusText = ''OK'', data = partial_failure\<rparr>"
    by (simp add: example_host_def ok_def)
  ultimately show ?thesis
    by (simp add: digits.simps)
qed

section \<open>Search: the pattern filters\<close>

lemma map_js_total:
  "list_all (\<lambda>x. f x = Inr (g x)) xs \<Longrightarrow> map_js f xs = Inr (map g xs)"
  by (induction xs) auto

lemma search_item_fields: "\<not> nullish item \<Longrightarrow> search_item item = Inr (item_fields item)"
  by (simp add: search_item_def item_fields_def)

lemma filter_js_pure:
  assumes "list_all (\<lambda>x. p x = Inr (q x)) xs"
  shows "filter_js p xs = Inr (filter q xs)"
  using assms by (induction xs) auto

lemma url_filter_page:
  assumes "compiled h (oget filters ''urlPattern'') = Inr ut"
    and "list_all (\<lambda>x. \<not> nullish x) page"
  shows "url_filter h filters (JArr page) = Inr (JArr (filter (url_passes ut) page))"
proof (cases "truthy (oget filters ''urlPattern'')")
  case False
  then show ?thesis
    using assms(1) by (auto simp: url_filter_def compiled_def url_passes_def)
next
  case True
  then obtain matches where m: "RegExp h (to_str (oget filters ''urlPattern'')) ''i'' = Inr matches"
      and ut: "ut = Some matches"
    using assms(1) by (auto simp: compiled_def split: sum.splits)
  have "list_all (\<lambda>x. and_then (get x ''url'') (\<lambda>u. Inr (matches (to_str u))) = Inr (url_passes ut x)) page"
    using assms(2) by (induction page) (auto simp: ut url_passes_def)
  then have "filter_js (\<lambda>item. and_then (get item ''url'') (\<lambda>u. Inr (matches (to_str u)))) page
             = Inr (filter (url_passes ut) page)"
    by (rule filter_js_pure)
  then show ?thesis
    using True m by (simp add: url_filter_def as_array_def)
qed

lemma title_filter_page:
  assumes "compiled h (oget filters ''titlePattern'') = Inr tt"
    and "list_all (\<lambda>x. \<not> nullish x) page"
  shows "title_filter h filters (JArr page) = Inr (JArr (filter (title_passes tt) page))"
proof (cases "truthy (oget filters ''titlePattern'')")
  case False
  then show ?thesis
    using assms(1) by (auto simp: title_filter_def compiled_def title_passes_def)
next
  case True
  then obtain matches where m: "RegExp h (to_str (oget filters ''titlePattern'')) ''i'' = Inr matches"
      and tt: "tt = Some matches"
    using assms(1) by (auto simp: compiled_def split: sum.splits)
  have "list_all (\<lambda>x. and_then (get x ''title'') (\<lambda>t. Inr (truthy t \<and> matches (to_str t)))
                      = Inr (title_passes tt x)) page"
    using assms(2) by (induction page) (auto simp: tt title_passes_def)
  then have "filter_js (\<lambda>item. and_then (get item ''title'') (\<lambda>t. Inr (truthy t \<and> matches (to_str t)))) page
             = Inr (filter (title_passes tt) page)"
    by (rule filter_js_pure)
  then show ?thesis
    using True m by (simp add: title_filter_def as_array_def)
qed

lemma list_all_filter: "list_all P xs \<Longrightarrow> list_all P (filter Q xs)"
  by (induction xs) auto

lemma search_result_page:
  assumes "oget (data resp) ''data'' = JArr page" and "list_all (\<lambda>x. \<not> nullish x) page"
    and "compiled h (oget (oget args ''filters'') ''urlPattern'') = Inr ut"
    and "compiled h (oget (oget args ''filters'') ''titlePattern'') = Inr tt"
  shows "search_webset_items_result h args resp = Inr (search_output args resp (filter (passes ut tt) page))"
proof -
  let ?byUrl = "filter (url_passes ut) page"
  let ?kept = "filter (title_passes tt) ?byUrl"
  have d: "\<not> nullish (data resp)"
    using assms(1) by (intro oget_defined [of _ "''data''"]) simp
  have u: "url_filter h (oget args ''filters'') (JArr page) = Inr (JArr ?byUrl)"
    using assms(3,2) by (rule url_filter_page)
  have t: "title_filter h (oget args ''filters'') (JArr ?byUrl) = Inr (JArr ?kept)"
    using assms(4) list_all_filter [OF assms(2)] by (rule title_filter_page)
  have "list_all (\<lambda>x. search_item x = Inr (item_fields x)) ?kept"
    using assms(2) by (induction page) (auto simp: search_item_fields)
  then have m: "map_js search_item ?kept = Inr (map item_fields ?kept)"
    by (rule map_js_total)
  have k: "?kept = filter (passes ut tt) page"
    by (induction page) (auto simp: passes_def)
  show ?thesis
    unfolding k [symmetric]
    using d assms(1) u t m
    by (simp add: search_webset_items_result_def Let_def length_of_def as_array_def search_output_def)
qed

lemma search_resolved:
  assumes "request_of search_webset_items_exa h args = Inr req" and "axios h req = Inr resp"
    and "oget (data resp) ''data'' = JArr page" and "list_all (\<lambda>x. \<not> nullish x) page"
    and "compiled h (oget (oget args ''filters'') ''urlPattern'') = Inr ut"
    and "compiled h (oget (oget args ''filters'') ''titlePattern'') = Inr tt"
    and "\<not> nullish args"
  shows "fst (handler search_webset_items_exa h args)
         = Inr (search_output args resp (filter (passes ut tt) page))"
  using assms(7,1,2)
  by (rule handler_resolved) (simp add: search_result_page [OF assms(3-6)])

text \<open>
  Claim C5. Search with a \<open>urlPattern\<close> (and no title pattern), when the call resolves
  with a page of items and the pattern compiles: \<open>matchingItems\<close> is the number of items
  of the page whose \<open>url\<close> the expression matches, \<open>items\<close> lists exactly those items, in
  page order, and \<open>hasMore\<close> and \<open>nextCursor\<close> are the server's. (The empty pattern
  switches the filter off, which is the same thing provided the engine's empty
  expression matches every string.) The witness is the scenario of the specification:
  two matching and three other URLs give \<open>matchingItems = 2\<close> and those two items.
\<close>

theorem search_url_pattern:
  assumes "oget (oget args ''filters'') ''urlPattern'' = JStr p"
    and "\<not> truthy (oget (oget args ''filters'') ''titlePattern'')"
    and "RegExp h p ''i'' = Inr matches" and "p \<noteq> [] \<or> (\<forall>s. matches s)"
    and "request_of search_webset_items_exa h args = Inr req" and "axios h req = Inr resp"
    and "oget (data resp) ''data'' = JArr page" and "list_all (\<lambda>item. \<not> nullish item) page"
  shows "fst (handler search_webset_items_exa h args)
         = Inr (search_output args resp (filter (\<lambda>item. matches (to_str (oget item ''url''))) page))"
proof -
  have args: "\<not> nullish args"
    using assms(1) oget_defined [of "oget args ''filters''" "''urlPattern''"]
          oget_defined [of args "''filters''"] by (cases "oget args ''filters''") auto
  have tt: "compiled h (oget (oget args ''filters'') ''titlePattern'') = Inr None"
    using assms(2) by (simp add: compiled_def)
  show ?thesis
  proof (cases "p = []")
    case False
    then have ut: "compiled h (oget (oget args ''filters'') ''urlPattern'') = Inr (Some matches)"
      using assms(1,3) by (simp add: compiled_def)
    have "passes (Some matches) None = (\<lambda>item. matches (to_str (oget item ''url'')))"
      by (simp add: passes_def url_passes_def title_passes_def fun_eq_iff)
    then show ?thesis
      using search_resolved [OF assms(5-8) ut tt args] by simp
  next
    case True
    then have ut: "compiled h (oget (oget args ''filters'') ''urlPattern'') = Inr None"
      using assms(1) by (simp add: compiled_def)
    have "passes None None = (\<lambda>item. matches (to_str (oget item ''url'')))"
      using True assms(4) by (simp add: passes_def url_passes_def title_passes_def fun_eq_iff)
    then show ?thesis
      using search_resolved [OF assms(5-8) ut tt args] by simp
  qed
qed

lemma linkedin_compiles:
  "literal_engine linkedin_pattern ''i'' = Inr linkedin_test"
  by (simp add: literal_engine_def linkedin_pattern_def lower_def linkedin_test_def fun_eq_iff)

lemma linkedin_matches:
  "filter (\<lambda>item. linkedin_test (to_str (oget item ''url''))) five_items
   = [item_at ''i1'' ''https://linkedin.com/in/ada'', item_at ''i4'' ''https://LinkedIn.com/company/exa'']"
  by (simp add: five_items_def item_at_def lower_def linkedin_test_def)

theorem search_url_pattern_witness:
  "fst (handler search_webset_items_exa (example_host (ok five_items_page) literal_engine) linkedin_search)
   = Inr (ToolResult (Stringify (JObj
       [(''websetId'', JStr ''ws_1''), (''matchingItems'', JNum 2),
        (''hasMore'', JBool True), (''nextCursor'', JStr ''c2''),
        (''filters'', JObj [(''urlPattern'', JStr linkedin_pattern)]),
        (''items'', JArr [item_fields (item_at ''i1'' ''https://linkedin.com/in/ada''),
                          item_fields (item_at ''i4'' ''https://LinkedIn.com/company/exa'')])])) False)"
proof -
  let ?h = "example_host (ok five_items_page) literal_engine"
  let ?resp = "\<lparr>status = 200, statusText = ''OK'', data = five_items_page\<rparr>"
  have p: "oget (oget linkedin_search ''filters'') ''urlPattern'' = JStr linkedin_pattern"
    by (simp add: linkedin_search_def)
  have t: "\<not> truthy (oget (oget linkedin_search ''filters'') ''titlePattern'')"
    by (simp add: linkedin_search_def)
  have e: "RegExp ?h linkedin_pattern ''i'' = Inr linkedin_test"
    by (simp add: example_host_def linkedin_compiles)
  have n: "linkedin_pattern \<noteq> [] \<or> (\<forall>s. linkedin_test s)"
    by (simp add: linkedin_pattern_def)
  obtain req where r: "request_of search_webset_items_exa ?h linkedin_search = Inr req"
    by (simp add: search_webset_items_request_def linkedin_search_def param_if_def
                  param_if_defined_def dotted_params_def)
  have a: "axios ?h req = Inr ?resp"
    by (simp add: example_host_def ok_def)
  have d: "oget (data ?resp) ''data'' = JArr five_items"
    by (simp add: five_items_page_def)
  have i: "list_all (\<lambda>item. \<not> nullish item) five_items"
    by (simp add: five_items_def item_at_def)
  show ?thesis
    using search_url_pattern [OF p t e n r a d i]
    by (simp add: linkedin_matches search_output_def linkedin_search_def five_items_page_def)
qed

lemma nullish_args_of_filter:
  "oget (oget args ''filters'') k = JStr p \<Longrightarrow> \<not> nullish args"
  by (cases args) auto

text \<open>
  Claim C9, as the code has it. Search with a non-empty \<open>titlePattern\<close> that compiles,
  when the call resolves with a page of items: the items kept are those that pass the
  URL filter, have a truthy \<open>title\<close> and whose title the expression matches; so no item
  whose \<open>title\<close> is absent or null is among them, whatever the pattern. (The empty
  string as pattern is falsy, the guard \<^verbatim>\<open>if (filters?.titlePattern)\<close> skips the filter, and
  items without a title stay: see the fact after the witness.)
\<close>

theorem search_title_pattern:
  assumes "oget (oget args ''filters'') ''titlePattern'' = JStr p" and "p \<noteq> []"
    and "RegExp h p ''i'' = Inr matches"
    and "compiled h (oget (oget args ''filters'') ''urlPattern'') = Inr ut"
    and "request_of search_webset_items_exa h args = Inr req" and "axios h req = Inr resp"
    and "oget (data resp) ''data'' = JArr page" and "list_all (\<lambda>item. \<not> nullish item) page"
  shows "\<exists>kept. fst (handler search_webset_items_exa h args) = Inr (search_output args resp kept)
           \<and> kept = filter (\<lambda>item. url_passes ut item \<and> truthy (oget item ''title'')
                                    \<and> matches (to_str (oget item ''title''))) page
           \<and> list_all (\<lambda>item. \<not> nullish (oget item ''title'')) kept"
proof -
  have tt: "compiled h (oget (oget args ''filters'') ''titlePattern'') = Inr (Some matches)"
    using assms(1,2,3) by (simp add: compiled_def)
  have args: "\<not> nullish args"
    using assms(1) by (rule nullish_args_of_filter)
  have same: "passes ut (Some matches) =
      (\<lambda>item. url_passes ut item \<and> truthy (oget item ''title'') \<and> matches (to_str (oget item ''title'')))"
    by (simp add: passes_def title_passes_def fun_eq_iff)
  have titled: "truthy v \<Longrightarrow> \<not> nullish v" for v
    by (cases v) simp_all
  have "list_all (\<lambda>item. \<not> nullish (oget item ''title'')) (filter (passes ut (Some matches)) page)"
    unfolding same by (induction page) (simp_all add: titled)
  then show ?thesis
    using search_resolved [OF assms(5-8) assms(4) tt args] same by simp
qed

theorem search_title_pattern_witness:
  "\<exists>kept. fst (handler search_webset_items_exa (example_host (ok titled_page) literal_engine)
                  (title_search ''a''))
            = Inr (search_output (title_search ''a'')
                     \<lparr>status = 200, statusText = ''OK'', data = titled_page\<rparr> kept)
          \<and> kept = [JObj [(''id'', JStr ''i1''), (''url'', JStr ''https://a.example''),
                           (''title'', JStr ''Ada'')]]
          \<and> list_all (\<lambda>item. \<not> nullish (oget item ''title'')) kept"
proof -
  let ?h = "example_host (ok titled_page) literal_engine"
  let ?resp = "\<lparr>status = 200, statusText = ''OK'', data = titled_page\<rparr>"
  let ?matches = "\<lambda>s. occurs ''a'' (map lower s)"
  have p: "oget (oget (title_search ''a'') ''filters'') ''titlePattern'' = JStr ''a''"
    by (simp add: title_search_def)
  have ne: "''a'' \<noteq> []"
    by simp
  have e: "RegExp ?h ''a'' ''i'' = Inr ?matches"
    by (simp add: example_host_def literal_engine_def lower_def)
  have u: "compiled ?h (oget (oget (title_search ''a'') ''filters'') ''urlPattern'') = Inr None"
    by (simp add: compiled_def title_search_def)
  obtain req where r: "request_of search_webset_items_exa ?h (title_search ''a'') = Inr req"
    by (simp add: search_webset_items_request_def title_search_def param_if_def
                  param_if_defined_def dotted_params_def)
  have a: "axios ?h req = Inr ?resp"
    by (simp add: example_host_def ok_def)
  have d: "oget (data ?resp) ''data'' = JArr titled_items"
    by (simp add: titled_page_def)
  have i: "list_all (\<lambda>item. \<not> nullish item) titled_items"
    by (simp add: titled_items_def)
  have k: "filter (\<lambda>item. url_passes None item \<and> truthy (oget item ''title'')
                           \<and> ?matches (to_str (oget item ''title''))) titled_items
           = [JObj [(''id'', JStr ''i1''), (''url'', JStr ''https://a.example''),
                    (''title'', JStr ''Ada'')]]"
    by (simp add: titled_items_def url_passes_def lower_def)
  show ?thesis
    using search_title_pattern [OF p ne e u r a d i] unfolding k by simp
qed

text \<open>
  With the empty string supplied as the title pattern the filter does not run: the item
  whose title is null is returned with the other one.
\<close>

theorem search_empty_title_pattern_keeps_untitled:
  "fst (handler search_webset_items_exa (example_host (ok titled_page) literal_engine) (title_search ''''))
   = Inr (ToolResult (Stringify (JObj
       [(''websetId'', JStr ''ws_1''), (''matchingItems'', JNum 2),
        (''hasMore'', JBool False), (''nextCursor'', Undefined),
        (''filters'', JObj [(''titlePattern'', JStr '''')]),
        (''items'', JArr [item_fields (JObj [(''id'', JStr ''i1''), (''url'', JStr ''https://a.example''),
                                             (''title'', JStr ''Ada'')]),
                          item_fields (JObj [(''id'', JStr ''i2''), (''url'', JStr ''https://b.example''),
                                             (''title'', Null)])])])) False)"
proof -
  let ?h = "example_host (ok titled_page) literal_engine"
  let ?resp = "\<lparr>status = 200, statusText = ''OK'', data = titled_page\<rparr>"
  obtain req where r: "request_of search_webset_items_exa ?h (title_search '''') = Inr req"
    by (simp add: search_webset_items_request_def title_search_def param_if_def
                  param_if_defined_def dotted_params_def)
  have a: "axios ?h req = Inr ?resp"
    by (simp add: example_host_def ok_def)
  have d: "oget (data ?resp) ''data'' = JArr titled_items"
    by (simp add: titled_page_def)
  have i: "list_all (\<lambda>item. \<not> nullish item) titled_items"
    by (simp add: titled_items_def)
  have u: "compiled ?h (oget (oget (title_search '''') ''filters'') ''urlPattern'') = Inr None"
    by (simp add: compiled_def title_search_def)
  have t: "compiled ?h (oget (oget (title_search '''') ''filters'') ''titlePattern'') = Inr None"
    by (simp add: compiled_def title_search_def)
  have n: "\<not> nullish (title_search '''')"
    by (simp add: title_search_def)
  show ?thesis
    using search_resolved [OF r a d i u t n]
    by (simp add: search_output_def passes_def url_passes_def title_passes_def titled_items_def
                  title_search_def titled_page_def)
qed

section \<open>Search: letter case\<close>

lemma compiled_ignores_case:
  assumes "ignores_case (RegExp h)" and "compiled h pattern = Inr (Some matches)"
    and "map lower s = map lower t"
  shows "matches s = matches t"
proof -
  have c: "RegExp h (to_str pattern) ''i'' = Inr matches"
    using assms(2) by (auto simp: compiled_def split: if_splits sum.splits)
  have "\<forall>p m x y. RegExp h p ''i'' = Inr m \<longrightarrow> map lower x = map lower y \<longrightarrow> m x = m y"
    using assms(1) unfolding ignores_case_def .
  then have "RegExp h (to_str pattern) ''i'' = Inr matches \<longrightarrow> map lower s = map lower t
             \<longrightarrow> matches s = matches t"
    by (elim allE)
  then show ?thesis
    using c assms(3) by simp
qed

lemma same_but_case_to_str:
  "same_but_case v w \<Longrightarrow> map lower (to_str v) = map lower (to_str w)"
  by (cases v; cases w) simp_all

lemma same_but_case_truthy: "same_but_case v w \<Longrightarrow> truthy v = truthy w"
proof (cases v; cases w)
  fix s t assume "v = JStr s" "w = JStr t" "same_but_case v w"
  then have "length (map lower s) = length (map lower t)" by simp
  then show "truthy v = truthy w"
    using \<open>v = JStr s\<close> \<open>w = JStr t\<close> by auto
qed simp_all

lemma url_passes_case:
  assumes "ignores_case (RegExp h)" and "compiled h pattern = Inr ut"
    and "same_but_case (oget a ''url'') (oget b ''url'')"
  shows "url_passes ut a = url_passes ut b"
proof (cases ut)
  case None
  then show ?thesis by (simp add: url_passes_def)
next
  case (Some matches)
  have "matches (to_str (oget a ''url'')) = matches (to_str (oget b ''url''))"
    using assms(1) assms(2) [unfolded Some] same_but_case_to_str [OF assms(3)]
    by (rule compiled_ignores_case)
  then show ?thesis
    using Some by (simp add: url_passes_def)
qed

lemma title_passes_case:
  assumes "ignores_case (RegExp h)" and "compiled h pattern = Inr tt"
    and "same_but_case (oget a ''title'') (oget b ''title'')"
  shows "title_passes tt a = title_passes tt b"
proof (cases tt)
  case None
  then show ?thesis by (simp add: title_passes_def)
next
  case (Some matches)
  have "matches (to_str (oget a ''title'')) = matches (to_str (oget b ''title''))"
    using assms(1) assms(2) [unfolded Some] same_but_case_to_str [OF assms(3)]
    by (rule compiled_ignores_case)
  then show ?thesis
    using Some same_but_case_truthy [OF assms(3)] by (simp add: title_passes_def)
qed

lemma literal_engine_ignores_case: "ignores_case literal_engine"
proof -
  have "matches s = matches t"
    if "literal_engine p ''i'' = Inr matches" and "map lower s = map lower t" for p matches s t
  proof (cases "take 1 p = ''^''")
    case True
    then have "matches = (\<lambda>s. take (length (unescape (drop 1 p))) (map lower s)
                        = map lower (unescape (drop 1 p)))"
      using that(1) by (auto simp: literal_engine_def Let_def)
    then show ?thesis using that(2) by simp
  next
    case False
    then have "matches = (\<lambda>s. occurs (map lower (unescape p)) (map lower s))"
      using that(1) by (auto simp: literal_engine_def Let_def)
    then show ?thesis using that(2) by simp
  qed
  then show ?thesis
    unfolding ignores_case_def by blast
qed

lemma linkedin_nonempty: "truthy (JStr linkedin_pattern)"
  by (simp add: linkedin_pattern_def)

text \<open>
  Claim C10. Both pattern filters compile their pattern with the flag \<^verbatim>\<open>i\<close> and nothing
  else. Hence, for an engine that honours the flag (an expression compiled with it does
  not tell apart strings that differ only in letter case): if a value \<open>a\<close> passes the
  filters of a search, then every item \<open>b\<close> of the fetched page whose \<open>url\<close> and
  \<open>title\<close> are those of \<open>a\<close> up to letter case is among the items the search keeps.
\<close>

theorem search_ignores_case:
  assumes "ignores_case (RegExp h)"
    and "compiled h (oget (oget args ''filters'') ''urlPattern'') = Inr ut"
    and "compiled h (oget (oget args ''filters'') ''titlePattern'') = Inr tt"
    and "\<not> nullish args"
    and "request_of search_webset_items_exa h args = Inr req" and "axios h req = Inr resp"
    and "oget (data resp) ''data'' = JArr page" and "list_all (\<lambda>item. \<not> nullish item) page"
    and "passes ut tt a"
    and "b \<in> set page"
    and "same_but_case (oget a ''url'') (oget b ''url'')"
    and "same_but_case (oget a ''title'') (oget b ''title'')"
  shows "\<exists>kept. fst (handler search_webset_items_exa h args) = Inr (search_output args resp kept)
           \<and> kept = filter (passes ut tt) page \<and> b \<in> set kept"
proof -
  have "passes ut tt b"
    using assms(9) url_passes_case [OF assms(1,2,11)] title_passes_case [OF assms(1,3,12)]
    by (simp add: passes_def)
  then have "b \<in> set (filter (passes ut tt) page)"
    using assms(10) by simp
  then show ?thesis
    using search_resolved [OF assms(5-8) assms(2,3,4)] by simp
qed

theorem search_ignores_case_witness:
  "\<exists>kept. fst (handler search_webset_items_exa (example_host (ok five_items_page) literal_engine)
                  linkedin_search)
            = Inr (search_output linkedin_search
                     \<lparr>status = 200, statusText = ''OK'', data = five_items_page\<rparr> kept)
          \<and> kept = filter (passes (Some linkedin_test) None) five_items
          \<and> item_at ''i4'' ''https://LinkedIn.com/company/exa'' \<in> set kept"
proof -
  let ?h = "example_host (ok five_items_page) literal_engine"
  let ?resp = "\<lparr>status = 200, statusText = ''OK'', data = five_items_page\<rparr>"
  let ?a = "item_at ''i0'' ''https://linkedin.com/company/exa''"
  let ?b = "item_at ''i4'' ''https://LinkedIn.com/company/exa''"
  have c: "ignores_case (RegExp ?h)"
    by (simp add: example_host_def literal_engine_ignores_case)
  have u: "compiled ?h (oget (oget linkedin_search ''filters'') ''urlPattern'') = Inr (Some linkedin_test)"
    using linkedin_nonempty
    by (simp add: compiled_def linkedin_search_def example_host_def linkedin_compiles)
  have t: "compiled ?h (oget (oget linkedin_search ''filters'') ''titlePattern'') = Inr None"
    by (simp add: compiled_def linkedin_search_def)
  have n: "\<not> nullish linkedin_search"
    by (simp add: linkedin_search_def)
  obtain req where r: "request_of search_webset_items_exa ?h linkedin_search = Inr req"
    by (simp add: search_webset_items_request_def linkedin_search_def param_if_def
                  param_if_defined_def dotted_params_def)
  have a: "axios ?h req = Inr ?resp"
    by (simp add: example_host_def ok_def)
  have d: "oget (data ?resp) ''data'' = JArr five_items"
    by (simp add: five_items_page_def)
  have i: "list_all (\<lambda>item. \<not> nullish item) five_items"
    by (simp add: five_items_def item_at_def)
  have pa: "passes (Some linkedin_test) None ?a"
    by (simp add: passes_def url_passes_def title_passes_def item_at_def linkedin_test_def lower_def)
  have m: "?b \<in> set five_items"
    by (simp add: five_items_def)
  have su: "same_but_case (oget ?a ''url'') (oget ?b ''url'')"
    by (simp add: item_at_def lower_def)
  have st: "same_but_case (oget ?a ''title'') (oget ?b ''title'')"
    by (simp add: item_at_def)
  show ?thesis
    using search_ignores_case [OF c u t n r a d i pa m su st] .
qed

section \<open>What the catch blocks make of a failure\<close>

lemma ToString_printable [simp]: "printable v \<Longrightarrow> ToString v = Inr (to_str v)"
  by (simp add: ToString_def)

lemma ToString_unprintable [simp]: "\<not> printable v \<Longrightarrow> ToString v = Inl TypeError"
  by (simp add: ToString_def)

lemma envelope_catch_flagged: "envelope_catch e = Inr out \<Longrightarrow> error_flagged out"
  by (cases e) (auto simp: envelope_catch_def)

lemma items_catch_flagged: "items_catch what e = Inr out \<Longrightarrow> error_flagged out"
  by (cases e) (auto simp: items_catch_def Let_def and_then_eq_Inr)

lemma simple_catch_flagged: "simple_catch what e = Inr out \<Longrightarrow> error_flagged out"
  by (auto simp: simple_catch_def and_then_eq_Inr)

lemma catch_flagged: "catch_of op e = Inr out \<Longrightarrow> error_flagged out"
  by (cases op) (simp_all add: envelope_catch_flagged items_catch_flagged simple_catch_flagged)

lemma handler_outcome:
  assumes "\<not> nullish args"
  shows "fst (handler op h args) =
           (case fst (try_block op h args) of Inl e \<Rightarrow> catch_of op e | Inr out \<Rightarrow> Inr out)"
  using assms
  by (simp add: handler_def destructured_def try_catch_def split: sum.split)

lemma handler_rejected:
  assumes "\<not> nullish args" and "request_of op h args = Inr req" and "axios h req = Inl e"
  shows "fst (handler op h args) = catch_of op e"
  using assms by (simp add: handler_outcome try_block_def attempt_rejected)

text \<open>Where the \<^verbatim>\<open>catch\<close> block returns, what the \<^verbatim>\<open>try\<close> block threw has become an outcome
  flagged as an error.\<close>

lemma caught_is_flagged:
  assumes "\<not> nullish args" and "fst (try_block op h args) = Inl e" and "catch_of op e = Inr out"
  shows "fst (handler op h args) = Inr out \<and> error_flagged out"
  using assms by (simp add: handler_outcome catch_flagged)

lemma direct_tools_catch: "op \<in> set direct_tools \<Longrightarrow> catch_of op = envelope_catch"
  by (auto simp: direct_tools_def)

lemma item_tools_catch: "op \<in> set item_tools \<Longrightarrow> catch_of op = items_catch (label op)"
  by (auto simp: item_tools_def)

section \<open>An exception that escapes\<close>

text \<open>
  Claim C1, on the code. A handler does not always return an outcome: the \<^verbatim>\<open>catch\<close> block of
  the four item tools (list, get, delete, search) puts the \<open>error\<close> field of the response
  body into a template literal. When the remote service answers with an HTTP error whose
  \<open>error\<close> field is an object with a \<open>toString\<close> property, that conversion throws a
  TypeError inside the \<^verbatim>\<open>catch\<close> block, nothing catches it, and the handler rejects: the
  exception reaches the caller, after the one request was issued. The witness is
  list-items answered with status 400 and the body \<^verbatim>\<open>{"error": {"toString": 0}}\<close>.
\<close>

theorem item_catch_rejects:
  assumes "op \<in> set item_tools" and "\<not> nullish args" and "request_of op h args = Inr req"
    and "axios h req = Inl (AxiosError message (Some resp))"
    and "oget (data resp) ''error'' = JObj kvs" and "''toString'' \<in> fst ` set kvs"
  shows "handler op h args = (Inl TypeError, [req])"
proof -
  have "items_catch (label op) (AxiosError message (Some resp)) = Inl TypeError"
    using assms(5,6) by (simp add: items_catch_def response_data_def or_else_def)
  then have "fst (handler op h args) = Inl TypeError"
    using handler_rejected [OF assms(2,3,4)] item_tools_catch [OF assms(1)] by simp
  moreover have "snd (handler op h args) = [req]"
    using assms(2,3) by (simp add: handler_requests)
  ultimately show ?thesis
    by (simp add: prod_eq_iff)
qed

theorem item_catch_rejects_witness:
  "fst (handler list_webset_items_exa
          (example_host (rejecting ''Request failed with status code 400'' unprintable_error) no_regexp)
          (JObj [(''websetId'', JStr ''ws_1'')])) = Inl TypeError
   \<and> length (snd (handler list_webset_items_exa
          (example_host (rejecting ''Request failed with status code 400'' unprintable_error) no_regexp)
          (JObj [(''websetId'', JStr ''ws_1'')]))) = 1"
proof -
  let ?h = "example_host (rejecting ''Request failed with status code 400'' unprintable_error) no_regexp"
  let ?args = "JObj [(''websetId'', JStr ''ws_1'')]"
  have m: "list_webset_items_exa \<in> set item_tools"
    by (simp add: item_tools_def)
  have n: "\<not> nullish ?args"
    by simp
  obtain req where r: "request_of list_webset_items_exa ?h ?args = Inr req"
    by (simp add: list_webset_items_request_def param_if_defined_def)
  have a: "axios ?h req = Inl (AxiosError ''Request failed with status code 400'' (Some unprintable_error))"
    by (simp add: example_host_def rejecting_def)
  have d: "oget (data unprintable_error) ''error'' = JObj [(''toString'', JNum 0)]"
    by (simp add: unprintable_error_def)
  have k: "''toString'' \<in> fst ` set [(''toString'', JNum 0)]"
    by simp
  show ?thesis
    using item_catch_rejects [OF m n r a d k] by simp
qed

section \<open>The outcome of a remote error\<close>

text \<open>
  Claim C2, as the code has it. When the call is rejected with an HTTP error that
  carries a response: a tool registered with \<^verbatim>\<open>server.addTool\<close> (exports, item update,
  batch) returns exactly \<^verbatim>\<open>{success: false, error, details}\<close>, where \<open>error\<close> is the
  \<open>error\<close> field of the body when truthy and otherwise the message of the axios error
  (not the status text), and \<open>details\<close> is the body; an item tool (list, get, delete,
  search) returns the error text \<^verbatim>\<open>What error (status): shown\<close>, where \<open>shown\<close> is that
  same \<open>error\<close> field or message as a string, whenever it converts to one.
\<close>

theorem remote_error_outcome:
  assumes "\<not> nullish args" and "request_of op h args = Inr req"
    and "axios h req = Inl (AxiosError message (Some resp))"
  shows "(op \<in> set direct_tools \<longrightarrow>
            fst (handler op h args) =
              Inr (Envelope [(''success'', JBool False),
                             (''error'', or_else (oget (data resp) ''error'') (JStr message)),
                             (''details'', data resp)]))
       \<and> (op \<in> set item_tools \<longrightarrow>
            (\<forall>shown. ToString (or_else (oget (data resp) ''error'') (JStr message)) = Inr shown \<longrightarrow>
               fst (handler op h args) =
                 Inr (ToolResult (Text (label op @ '' error (''
                          @ to_str (or_else (JNum (status resp)) (JStr ''unknown'')) @ ''): ''
                          @ shown)) True)))"
proof -
  have out: "fst (handler op h args) = catch_of op (AxiosError message (Some resp))"
    using assms by (rule handler_rejected)
  have "fst (handler op h args) =
              Inr (Envelope [(''success'', JBool False),
                             (''error'', or_else (oget (data resp) ''error'') (JStr message)),
                             (''details'', data resp)])"
    if "op \<in> set direct_tools"
    using out direct_tools_catch [OF that] by (simp add: envelope_catch_def response_data_def)
  moreover have "fst (handler op h args) =
                 Inr (ToolResult (Text (label op @ '' error (''
                          @ to_str (or_else (JNum (status resp)) (JStr ''unknown'')) @ ''): ''
                          @ shown)) True)"
    if "op \<in> set item_tools"
      and "ToString (or_else (oget (data resp) ''error'') (JStr message)) = Inr shown" for shown
    using out item_tools_catch [OF that(1)] that(2)
    by (simp add: items_catch_def response_data_def response_status_def Let_def)
  ultimately show ?thesis
    by blast
qed

theorem remote_error_outcome_witness:
  "fst (handler get_export_exa (example_host (rejecting ''Request failed with status code 404'' not_found)
                                  no_regexp)
          (JObj [(''websetId'', JStr ''ws_1''), (''exportId'', JStr ''e1'')]))
   = Inr (Envelope [(''success'', JBool False), (''error'', JStr ''Import not found''),
                    (''details'', JObj [(''error'', JStr ''Import not found'')])])
   \<and> fst (handler get_webset_item_exa
            (example_host (rejecting ''Request failed with status code 404'' not_found) no_regexp)
            (JObj [(''websetId'', JStr ''ws_1''), (''itemId'', JStr ''i1'')]))
   = Inr (ToolResult (Text ''Get item error (404): Import not found'') True)"
proof -
  let ?h = "example_host (rejecting ''Request failed with status code 404'' not_found) no_regexp"
  let ?args = "JObj [(''websetId'', JStr ''ws_1''), (''exportId'', JStr ''e1'')]"
  let ?args' = "JObj [(''websetId'', JStr ''ws_1''), (''itemId'', JStr ''i1'')]"
  have n: "\<not> nullish ?args" and n': "\<not> nullish ?args'"
    by simp_all
  obtain req where r: "request_of get_export_exa ?h ?args = Inr req"
    by (simp add: get_export_request_def export_by_id_url_def)
  have a: "axios ?h req = Inl (AxiosError ''Request failed with status code 404'' (Some not_found))"
    by (simp add: example_host_def rejecting_def)
  have d: "get_export_exa \<in> set direct_tools"
    by (simp add: direct_tools_def)
  have one: "fst (handler get_export_exa ?h ?args)
             = Inr (Envelope [(''success'', JBool False), (''error'', JStr ''Import not found''),
                              (''details'', JObj [(''error'', JStr ''Import not found'')])])"
    using remote_error_outcome [OF n r a] d
    by (simp add: not_found_def or_else_def)
  obtain req' where r': "request_of get_webset_item_exa ?h ?args' = Inr req'"
    by (simp add: get_webset_item_request_def)
  have a': "axios ?h req' = Inl (AxiosError ''Request failed with status code 404'' (Some not_found))"
    by (simp add: example_host_def rejecting_def)
  have i: "get_webset_item_exa \<in> set item_tools"
    by (simp add: item_tools_def)
  have s: "ToString (or_else (oget (data not_found) ''error'')
                       (JStr ''Request failed with status code 404'')) = Inr ''Import not found''"
    by (simp add: not_found_def or_else_def)
  have c: "to_str (or_else (JNum (status not_found)) (JStr ''unknown'')) = ''404''"
    by (simp add: not_found_def or_else_def digits.simps)
  have two: "fst (handler get_webset_item_exa ?h ?args')
             = Inr (ToolResult (Text ''Get item error (404): Import not found'') True)"
    using remote_error_outcome [OF n' r' a'] i s c by simp
  show ?thesis
    using one two by simp
qed

text \<open>
  Two calls the remote service answers with an HTTP error and a body. Get-export, the
  body having no \<open>error\<close> field, reports the message of the axios error, which is not the
  status text \<^verbatim>\<open>Internal Server Error\<close>; get-item returns a text result, not an envelope,
  and no \<open>details\<close>.
\<close>

theorem remote_error_other_shapes:
  "fst (handler get_export_exa
          (example_host (rejecting ''Request failed with status code 500'' server_error) no_regexp)
          (JObj [(''websetId'', JStr ''ws_1''), (''exportId'', JStr ''e1'')]))
   = Inr (Envelope [(''success'', JBool False),
                    (''error'', JStr ''Request failed with status code 500''),
                    (''details'', JObj [(''code'', JNum 7)])])
   \<and> fst (handler get_webset_item_exa
            (example_host (rejecting ''Request failed with status code 404'' not_found) no_regexp)
            (JObj [(''websetId'', JStr ''ws_1''), (''itemId'', JStr ''i1'')]))
   = Inr (ToolResult (Text ''Get item error (404): Import not found'') True)"
proof -
  let ?h = "example_host (rejecting ''Request failed with status code 500'' server_error) no_regexp"
  let ?args = "JObj [(''websetId'', JStr ''ws_1''), (''exportId'', JStr ''e1'')]"
  let ?h' = "example_host (rejecting ''Request failed with status code 404'' not_found) no_regexp"
  let ?args' = "JObj [(''websetId'', JStr ''ws_1''), (''itemId'', JStr ''i1'')]"
  obtain req where r: "request_of get_export_exa ?h ?args = Inr req"
    by (simp add: get_export_request_def export_by_id_url_def)
  have a: "axios ?h req = Inl (AxiosError ''Request failed with status code 500'' (Some server_error))"
    by (simp add: example_host_def rejecting_def)
  have one: "fst (handler get_export_exa ?h ?args)
             = Inr (Envelope [(''success'', JBool False),
                    (''error'', JStr ''Request failed with status code 500''),
                    (''details'', JObj [(''code'', JNum 7)])])"
    using handler_rejected [OF _ r a]
    by (simp add: envelope_catch_def response_data_def server_error_def or_else_def)
  obtain req' where r': "request_of get_webset_item_exa ?h' ?args' = Inr req'"
    by (simp add: get_webset_item_request_def)
  have a': "axios ?h' req' = Inl (AxiosError ''Request failed with status code 404'' (Some not_found))"
    by (simp add: example_host_def rejecting_def)
  have two: "fst (handler get_webset_item_exa ?h' ?args')
             = Inr (ToolResult (Text ''Get item error (404): Import not found'') True)"
    using handler_rejected [OF _ r' a']
    by (simp add: items_catch_def response_data_def response_status_def not_found_def or_else_def
                  digits.simps)
  show ?thesis
    using one two by simp
qed

section \<open>Authentication header and timeout\<close>

lemma keyed_instance [simp]:
  "keyed h (instance_call h (json_headers h) m u q b)"
  "keyed h (instance_call h (json_body_headers h) m u q b)"
  "keyed h (direct_call h (json_headers h) m u q b)"
  "keyed h (direct_call h (json_body_headers h) m u q b)"
  by (simp_all add: keyed_def instance_call_def direct_call_def json_headers_def json_body_headers_def)

lemma timeout_call [simp]:
  "timeout (instance_call h hs m u q b) = Some (REQUEST_TIMEOUT (API_CONFIG h))"
  "timeout (direct_call h hs m u q b) = None"
  by (simp_all add: instance_call_def direct_call_def)

lemmas request_defs =
  create_export_request_def get_export_request_def list_exports_request_def
  delete_export_request_def update_webset_item_request_def batch_update_items_request_def
  batch_delete_items_request_def batch_verify_items_request_def list_webset_items_request_def
  get_webset_item_request_def delete_webset_item_request_def search_webset_items_request_def
  create_import_request_def get_import_request_def list_imports_request_def
  update_import_request_def delete_import_request_def create_webset_monitor_request_def
  update_webset_monitor_request_def get_webset_monitor_request_def
  list_webset_monitors_request_def delete_webset_monitor_request_def
  list_monitor_runs_request_def get_monitor_run_request_def create_webhook_request_def
  get_webhook_request_def list_webhooks_request_def update_webhook_request_def
  delete_webhook_request_def list_webhook_attempts_request_def list_events_request_def
  get_event_request_def

lemma request_key_timeout:
  assumes "request_of op h args = Inr req"
  shows "keyed h req \<and> timeout req = (if op \<in> set direct_tools then None
                                          else Some (REQUEST_TIMEOUT (API_CONFIG h)))"
  using assms
  by (cases op)
     (auto simp: request_defs and_then_eq_Inr Let_def direct_tools_def)


lemma api_key_configured: "config h = Some (Some k) \<Longrightarrow> k \<noteq> [] \<Longrightarrow> api_key h = k"
  by (simp add: api_key_def)

lemma api_key_fallback:
  "config h = None \<or> config h = Some None \<or> config h = Some (Some []) \<Longrightarrow>
   api_key h = (case EXA_API_KEY h of None \<Rightarrow> [] | Some e \<Rightarrow> e)"
  by (auto simp: api_key_def split: option.splits)

text \<open>
  Claim C3, on the code. Every request a handler issues carries the header
  \<^verbatim>\<open>x-api-key\<close> with the configured key, or, when no key is configured (or it is the empty
  string), the value of the environment variable (the empty string if there is none).
  The request carries the timeout \<^verbatim>\<open>API_CONFIG.REQUEST_TIMEOUT\<close> when the tool is registered
  with \<^verbatim>\<open>server.tool\<close>; the tools registered with \<^verbatim>\<open>server.addTool\<close> (exports, item
  update, batch) pass no timeout to axios. The witness is the request of create-export.
\<close>

theorem request_key_and_timeout:
  "list_all (\<lambda>req. keyed h req
                    \<and> timeout req = (if op \<in> set direct_tools then None
                                      else Some (REQUEST_TIMEOUT (API_CONFIG h))))
            (snd (handler op h args))
   \<and> (\<forall>k. config h = Some (Some k) \<and> k \<noteq> [] \<longrightarrow> api_key h = k)
   \<and> (config h = None \<or> config h = Some None \<or> config h = Some (Some []) \<longrightarrow>
        api_key h = (case EXA_API_KEY h of None \<Rightarrow> [] | Some e \<Rightarrow> e))"
proof -
  have "list_all (\<lambda>req. keyed h req
                    \<and> timeout req = (if op \<in> set direct_tools then None
                                      else Some (REQUEST_TIMEOUT (API_CONFIG h))))
            (snd (handler op h args))"
  proof (cases "request_of op h args")
    case (Inl e)
    then show ?thesis by (simp add: handler_requests)
  next
    case (Inr req)
    then show ?thesis
      using request_key_timeout [OF Inr] by (simp add: handler_requests)
  qed
  then show ?thesis
    using api_key_configured api_key_fallback by blast
qed

theorem request_key_and_timeout_witness:
  "snd (handler create_export_exa (example_host (ok Null) no_regexp)
          (JObj [(''websetId'', JStr ''ws_1''), (''format'', JStr ''csv'')]))
   = [\<lparr>verb = POST, baseURL = None, url = ''https://api.exa.ai/websets/ws_1/exports'',
       headers = [(''accept'', ''application/json''), (''content-type'', ''application/json''),
                  (''x-api-key'', ''key-1'')],
       params = NoParams, body = Some (JObj [(''format'', JStr ''csv'')]), timeout = None\<rparr>]
   \<and> list_all (\<lambda>req. keyed (example_host (ok Null) no_regexp) req \<and> timeout req = None)
        (snd (handler create_export_exa (example_host (ok Null) no_regexp)
                (JObj [(''websetId'', JStr ''ws_1''), (''format'', JStr ''csv'')])))
   \<and> api_key (example_host (ok Null) no_regexp) = ''key-1''"
proof -
  let ?h = "example_host (ok Null) no_regexp"
  let ?args = "JObj [(''websetId'', JStr ''ws_1''), (''format'', JStr ''csv'')]"
  have d: "create_export_exa \<in> set direct_tools"
    by (simp add: direct_tools_def)
  have c: "config ?h = Some (Some ''key-1'') \<and> ''key-1'' \<noteq> []"
    by (simp add: example_host_def)
  have k: "api_key ?h = ''key-1''"
    using request_key_and_timeout [of ?h create_export_exa ?args] c by blast
  have r: "snd (handler create_export_exa ?h ?args)
           = [\<lparr>verb = POST, baseURL = None, url = ''https://api.exa.ai/websets/ws_1/exports'',
               headers = [(''accept'', ''application/json''), (''content-type'', ''application/json''),
                          (''x-api-key'', ''key-1'')],
               params = NoParams, body = Some (JObj [(''format'', JStr ''csv'')]), timeout = None\<rparr>]"
    using k
    by (simp add: handler_requests create_export_request_def direct_call_def json_body_headers_def
                  endpoint_def spread_if_def)
       (simp add: example_host_def example_endpoints_def replace_def)
  show ?thesis
    using request_key_and_timeout [of ?h create_export_exa ?args] d r k by simp
qed


section \<open>Query parameters of the list and search tools\<close>

lemma params_call [simp]:
  "params (instance_call h hs m u q b) = q" "params (direct_call h hs m u q b) = q"
  by (simp_all add: instance_call_def direct_call_def)

lemma in_param_if [simp]: "(k, v) \<in> set (param_if k' a) \<longleftrightarrow> k = k' \<and> truthy a \<and> v = to_str a"
  by (auto simp: param_if_def)

lemma fst_param_if [simp]: "k \<in> fst ` set (param_if k' a) \<longleftrightarrow> k = k' \<and> truthy a"
  by (auto simp: param_if_def)

lemma param_if_defined_Inr:
  "param_if_defined k' a = Inr ps \<longleftrightarrow>
     (a = Undefined \<and> ps = []) \<or> (\<not> nullish a \<and> ps = [(k', to_str a)])"
  by (auto simp: param_if_defined_def toString_def nullish_def)

lemma dotted_keys:
  assumes "dotted_params prefix m = Inr ps" and "k \<in> fst ` set ps"
  shows "take (length prefix + 1) k = prefix @ ''.''"
  using assms by (auto simp: dotted_params_def and_then_eq_Inr split: if_splits)

lemma list_items_params:
  assumes "request_of list_webset_items_exa h args = Inr req"
  shows "serialized (params req) =
           param_if ''cursor'' (oget args ''cursor'')
           @ param_if ''limit'' (oget args ''limit'')
           @ param_if ''type'' (oget args ''type'')
           @ param_if ''verificationStatus'' (oget args ''verificationStatus'')
           @ (if oget args ''hasEnrichedData'' = Undefined then []
              else [(''hasEnrichedData'', to_str (oget args ''hasEnrichedData''))])
           @ param_if ''createdAfter'' (oget args ''createdAfter'')
           @ param_if ''createdBefore'' (oget args ''createdBefore'')
           @ param_if ''updatedAfter'' (oget args ''updatedAfter'')
           @ param_if ''updatedBefore'' (oget args ''updatedBefore'')"
proof -
  obtain enriched where e: "param_if_defined ''hasEnrichedData'' (oget args ''hasEnrichedData'') = Inr enriched"
    and p: "req = instance_call h (json_headers h) GET (items_url h (oget args ''websetId''))
                 (URLSearchParams (param_if ''cursor'' (oget args ''cursor'')
              @ param_if ''limit'' (oget args ''limit'')
              @ param_if ''type'' (oget args ''type'')
              @ param_if ''verificationStatus'' (oget args ''verificationStatus'')
              @ enriched
              @ param_if ''createdAfter'' (oget args ''createdAfter'')
              @ param_if ''createdBefore'' (oget args ''createdBefore'')
              @ param_if ''updatedAfter'' (oget args ''updatedAfter'')
              @ param_if ''updatedBefore'' (oget args ''updatedBefore''))) None"
    using assms unfolding request_of.simps list_webset_items_request_def and_then_eq_Inr Let_def
    by blast
  have "enriched = (if oget args ''hasEnrichedData'' = Undefined then []
              else [(''hasEnrichedData'', to_str (oget args ''hasEnrichedData''))])"
    using e unfolding param_if_defined_Inr by (cases "oget args ''hasEnrichedData'' = Undefined") simp_all
  then show ?thesis
    unfolding p by simp
qed


lemma list_items_query:
  assumes "request_of list_webset_items_exa h args = Inr req"
  shows "list_all (query_rule list_webset_items_exa args req) item_query_keys"
  by (simp add: item_query_keys_def query_rule_def list_items_params [OF assms] supplied_def
                argument_def image_Un)


lemma dotted_has_dot:
  assumes "dotted_params prefix m = Inr ps" and "CHR ''.'' \<notin> set k"
  shows "k \<notin> fst ` set ps"
  using assms by (auto simp: dotted_params_def and_then_eq_Inr split: if_splits)

lemma search_params:
  assumes "request_of search_webset_items_exa h args = Inr req"
  shows "\<exists>dotted. serialized (params req) =
           param_if ''cursor'' (oget args ''cursor'')
           @ param_if ''limit'' (oget args ''limit'')
           @ param_if ''type'' (oget (oget args ''filters'') ''type'')
           @ param_if ''verificationStatus'' (oget (oget args ''filters'') ''verificationStatus'')
           @ (if oget (oget args ''filters'') ''hasEnrichedData'' = Undefined then []
              else [(''hasEnrichedData'', to_str (oget (oget args ''filters'') ''hasEnrichedData''))])
           @ param_if ''createdAfter'' (oget (oget args ''filters'') ''createdAfter'')
           @ param_if ''createdBefore'' (oget (oget args ''filters'') ''createdBefore'')
           @ param_if ''updatedAfter'' (oget (oget args ''filters'') ''updatedAfter'')
           @ param_if ''updatedBefore'' (oget (oget args ''filters'') ''updatedBefore'')
           @ dotted
         \<and> (\<forall>k. CHR ''.'' \<notin> set k \<longrightarrow> k \<notin> fst ` set dotted)
         \<and> (\<exists>metadata enrichment. dotted = metadata @ enrichment
              \<and> dotted_params ''metadata'' (oget (oget args ''filters'') ''metadata'') = Inr metadata
              \<and> dotted_params ''enrichmentStatus'' (oget (oget args ''filters'') ''enrichmentStatus'')
                  = Inr enrichment)"
proof -
  let ?f = "oget args ''filters''"
  obtain enriched metadata enrichment
    where e: "param_if_defined ''hasEnrichedData'' (oget ?f ''hasEnrichedData'') = Inr enriched"
      and m: "dotted_params ''metadata'' (oget ?f ''metadata'') = Inr metadata"
      and n: "dotted_params ''enrichmentStatus'' (oget ?f ''enrichmentStatus'') = Inr enrichment"
      and p: "req = instance_call h (json_headers h) GET (items_url h (oget args ''websetId''))
                 (URLSearchParams (param_if ''cursor'' (oget args ''cursor'')
               @ param_if ''limit'' (oget args ''limit'')
               @ param_if ''type'' (oget ?f ''type'')
               @ param_if ''verificationStatus'' (oget ?f ''verificationStatus'')
               @ enriched
               @ param_if ''createdAfter'' (oget ?f ''createdAfter'')
               @ param_if ''createdBefore'' (oget ?f ''createdBefore'')
               @ param_if ''updatedAfter'' (oget ?f ''updatedAfter'')
               @ param_if ''updatedBefore'' (oget ?f ''updatedBefore'')
               @ metadata @ enrichment)) None"
    using assms unfolding request_of.simps search_webset_items_request_def and_then_eq_Inr Let_def
    by blast
  have en: "enriched = (if oget ?f ''hasEnrichedData'' = Undefined then []
              else [(''hasEnrichedData'', to_str (oget ?f ''hasEnrichedData''))])"
    using e unfolding param_if_defined_Inr by (cases "oget ?f ''hasEnrichedData'' = Undefined") simp_all
  have "\<forall>k. CHR ''.'' \<notin> set k \<longrightarrow> k \<notin> fst ` set (metadata @ enrichment)"
    using dotted_has_dot [OF m] dotted_has_dot [OF n] by (simp add: image_Un)
  then show ?thesis
    unfolding p en using m n by (intro exI [of _ "metadata @ enrichment"]) simp
qed

lemma search_query:
  assumes "request_of search_webset_items_exa h args = Inr req"
  shows "list_all (query_rule search_webset_items_exa args req) item_query_keys
         \<and> ''urlPattern'' \<notin> fst ` set (serialized (params req))
         \<and> ''titlePattern'' \<notin> fst ` set (serialized (params req))"
proof -
  obtain dotted where p: "serialized (params req) =
           param_if ''cursor'' (oget args ''cursor'')
           @ param_if ''limit'' (oget args ''limit'')
           @ param_if ''type'' (oget (oget args ''filters'') ''type'')
           @ param_if ''verificationStatus'' (oget (oget args ''filters'') ''verificationStatus'')
           @ (if oget (oget args ''filters'') ''hasEnrichedData'' = Undefined then []
              else [(''hasEnrichedData'', to_str (oget (oget args ''filters'') ''hasEnrichedData''))])
           @ param_if ''createdAfter'' (oget (oget args ''filters'') ''createdAfter'')
           @ param_if ''createdBefore'' (oget (oget args ''filters'') ''createdBefore'')
           @ param_if ''updatedAfter'' (oget (oget args ''filters'') ''updatedAfter'')
           @ param_if ''updatedBefore'' (oget (oget args ''filters'') ''updatedBefore'')
           @ dotted"
    and d: "\<And>k. CHR ''.'' \<notin> set k \<Longrightarrow> k \<notin> fst ` set dotted"
    using search_params [OF assms] by blast
  have d': "CHR ''.'' \<notin> set k \<Longrightarrow> (k, v) \<notin> set dotted" for k v
    using d [of k] by force
  show ?thesis
    by (simp add: item_query_keys_def query_rule_def p supplied_def argument_def image_Un d d')
qed


lemma list_exports_query:
  assumes "request_of list_exports_exa h args = Inr req"
  shows "list_all (query_rule list_exports_exa args req) [''limit'', ''cursor'']
         \<and> ''urlPattern'' \<notin> fst ` set (serialized (params req))
         \<and> ''titlePattern'' \<notin> fst ` set (serialized (params req))"
proof -
  have p: "params req = ParamsObject ([(''limit'', oget args ''limit'')]
             @ (if truthy (oget args ''cursor'') then [(''cursor'', oget args ''cursor'')] else []))"
    using assms by (auto simp: list_exports_request_def and_then_eq_Inr Let_def)
  have t: "truthy v \<Longrightarrow> \<not> nullish v" for v
    by (cases v) simp_all
  show ?thesis
    by (simp add: query_rule_def p supplied_def argument_def t)
qed

lemma status_page_query:
  assumes "params req = URLSearchParams (status_page_params args)"
    and "op \<noteq> search_webset_items_exa" and "op \<noteq> list_exports_exa"
  shows "list_all (query_rule op args req) [''status'', ''cursor'', ''limit'']
         \<and> ''urlPattern'' \<notin> fst ` set (serialized (params req))
         \<and> ''titlePattern'' \<notin> fst ` set (serialized (params req))"
  using assms(2,3)
  by (simp add: query_rule_def assms(1) status_page_params_def supplied_def argument_def image_Un)

lemma list_imports_query:
  assumes "request_of list_imports_exa h args = Inr req"
  shows "list_all (query_rule list_imports_exa args req) [''status'', ''websetId'', ''cursor'', ''limit'']
         \<and> ''urlPattern'' \<notin> fst ` set (serialized (params req))
         \<and> ''titlePattern'' \<notin> fst ` set (serialized (params req))"
proof -
  have p: "params req = URLSearchParams (param_if ''status'' (oget args ''status'')
              @ param_if ''websetId'' (oget args ''websetId'')
              @ param_if ''cursor'' (oget args ''cursor'')
              @ param_if ''limit'' (oget args ''limit''))"
    using assms by (auto simp: list_imports_request_def and_then_eq_Inr Let_def get_def split: if_splits)
  show ?thesis
    by (simp add: query_rule_def p supplied_def argument_def image_Un)
qed

lemma list_events_query:
  assumes "request_of list_events_exa h args = Inr req"
  shows "list_all (query_rule list_events_exa args req) [''eventType'', ''websetId'', ''cursor'', ''limit'']
         \<and> ''urlPattern'' \<notin> fst ` set (serialized (params req))
         \<and> ''titlePattern'' \<notin> fst ` set (serialized (params req))"
proof -
  have p: "params req = URLSearchParams (param_if ''eventType'' (oget args ''eventType'')
              @ param_if ''websetId'' (oget args ''websetId'')
              @ param_if ''cursor'' (oget args ''cursor'')
              @ param_if ''limit'' (oget args ''limit''))"
    using assms by (auto simp: list_events_request_def and_then_eq_Inr Let_def get_def split: if_splits)
  show ?thesis
    by (simp add: query_rule_def p supplied_def argument_def image_Un)
qed

lemma list_webhook_attempts_query:
  assumes "request_of list_webhook_attempts_exa h args = Inr req"
  shows "list_all (query_rule list_webhook_attempts_exa args req) [''eventType'', ''cursor'', ''limit'']
         \<and> ''urlPattern'' \<notin> fst ` set (serialized (params req))
         \<and> ''titlePattern'' \<notin> fst ` set (serialized (params req))"
proof -
  have p: "params req = URLSearchParams (param_if ''eventType'' (oget args ''eventType'')
              @ param_if ''cursor'' (oget args ''cursor'')
              @ param_if ''limit'' (oget args ''limit''))"
    using assms by (auto simp: list_webhook_attempts_request_def Let_def)
  show ?thesis
    by (simp add: query_rule_def p supplied_def argument_def image_Un)
qed

lemma list_webset_monitors_query:
  assumes "request_of list_webset_monitors_exa h args = Inr req"
  shows "list_all (query_rule list_webset_monitors_exa args req) [''status'', ''cursor'', ''limit'']
         \<and> ''urlPattern'' \<notin> fst ` set (serialized (params req))
         \<and> ''titlePattern'' \<notin> fst ` set (serialized (params req))"
proof -
  have "params req = URLSearchParams (status_page_params args)"
    using assms by (auto simp: list_webset_monitors_request_def)
  then show ?thesis
    by (rule status_page_query) simp_all
qed

lemma list_monitor_runs_query:
  assumes "request_of list_monitor_runs_exa h args = Inr req"
  shows "list_all (query_rule list_monitor_runs_exa args req) [''status'', ''cursor'', ''limit'']
         \<and> ''urlPattern'' \<notin> fst ` set (serialized (params req))
         \<and> ''titlePattern'' \<notin> fst ` set (serialized (params req))"
proof -
  have "params req = URLSearchParams (status_page_params args)"
    using assms by (auto simp: list_monitor_runs_request_def)
  then show ?thesis
    by (rule status_page_query) simp_all
qed

lemma list_webhooks_query:
  assumes "request_of list_webhooks_exa h args = Inr req"
  shows "list_all (query_rule list_webhooks_exa args req) [''status'', ''cursor'', ''limit'']
         \<and> ''urlPattern'' \<notin> fst ` set (serialized (params req))
         \<and> ''titlePattern'' \<notin> fst ` set (serialized (params req))"
proof -
  have "params req = URLSearchParams (status_page_params args)"
    using assms by (auto simp: list_webhooks_request_def and_then_eq_Inr)
  then show ?thesis
    by (rule status_page_query) simp_all
qed

lemma list_items_patterns:
  assumes "request_of list_webset_items_exa h args = Inr req"
  shows "''urlPattern'' \<notin> fst ` set (serialized (params req))
         \<and> ''titlePattern'' \<notin> fst ` set (serialized (params req))"
  by (simp add: list_items_params [OF assms] image_Un)

lemma dotted_entries:
  assumes "dotted_params prefix (JObj kvs) = Inr ps"
  shows "ps = map (\<lambda>kv. (prefix @ ''.'' @ fst kv, to_str (snd kv))) kvs"
  using assms by (simp add: dotted_params_def object_entries_def)

lemma search_dotted:
  assumes "request_of search_webset_items_exa h args = Inr req"
    and "k = ''metadata'' \<or> k = ''enrichmentStatus''"
    and "oget (oget args ''filters'') k = JObj kvs"
  shows "list_all (\<lambda>kv. (k @ ''.'' @ fst kv, to_str (snd kv)) \<in> set (serialized (params req))) kvs"
proof -
  obtain plain metadata enrichment where p: "serialized (params req) = plain @ metadata @ enrichment"
    and m: "dotted_params ''metadata'' (oget (oget args ''filters'') ''metadata'') = Inr metadata"
    and n: "dotted_params ''enrichmentStatus'' (oget (oget args ''filters'') ''enrichmentStatus'')
            = Inr enrichment"
    using search_params [OF assms(1)] by (metis append.assoc)
  have "set (map (\<lambda>kv. (k @ ''.'' @ fst kv, to_str (snd kv))) kvs) \<subseteq> set (serialized (params req))"
    using assms(2)
  proof
    assume "k = ''metadata''"
    then show ?thesis
      using dotted_entries [of "''metadata''" kvs metadata] m assms(3) unfolding p by auto
  next
    assume "k = ''enrichmentStatus''"
    then show ?thesis
      using dotted_entries [of "''enrichmentStatus''" kvs enrichment] n assms(3) unfolding p by auto
  qed
  then show ?thesis
    by (auto simp: list_all_iff)
qed

lemma request_query:
  assumes "op \<in> set list_tools" and "request_of op h args = Inr req"
  shows "list_all (query_rule op args req) (query_keys op)
         \<and> ''urlPattern'' \<notin> fst ` set (serialized (params req))
         \<and> ''titlePattern'' \<notin> fst ` set (serialized (params req))"
proof -
  have "op = list_webset_items_exa \<or> op = search_webset_items_exa \<or> op = list_exports_exa
      \<or> op = list_imports_exa \<or> op = list_webset_monitors_exa \<or> op = list_monitor_runs_exa
      \<or> op = list_webhooks_exa \<or> op = list_webhook_attempts_exa \<or> op = list_events_exa"
    using assms(1) by (simp add: list_tools_def)
  then show ?thesis
    using assms(2) list_items_query list_items_patterns search_query list_exports_query
      list_imports_query list_webset_monitors_query list_monitor_runs_query list_webhooks_query
      list_webhook_attempts_query list_events_query
    by (elim disjE) simp_all
qed


text \<open>
  Claim C8, as the code has it. On every request of a list or search tool, a query parameter
  is sent for an argument exactly when the code's guard for it holds, and then it carries the
  argument's string form: the guard is truthiness (an unset, empty-string or zero argument
  sends nothing, so no empty or null marker is sent), except that \<open>hasEnrichedData\<close> is sent
  whenever it is not \<open>undefined\<close> (so \<open>false\<close> is sent as \<open>false\<close>) and that list-exports sends
  \<open>limit\<close> whenever it has one. The patterns \<open>urlPattern\<close> and \<open>titlePattern\<close> are never sent:
  the search applies them to the page it gets back. Every entry of the \<open>metadata\<close> and
  \<open>enrichmentStatus\<close> filters of the search is sent under its dotted name.
\<close>

theorem query_parameters:
  assumes "op \<in> set list_tools" and "req \<in> set (snd (handler op h args))"
  shows "list_all (query_rule op args req) (query_keys op)
         \<and> ''urlPattern'' \<notin> fst ` set (serialized (params req))
         \<and> ''titlePattern'' \<notin> fst ` set (serialized (params req))
         \<and> (\<forall>k kvs. op = search_webset_items_exa \<and> (k = ''metadata'' \<or> k = ''enrichmentStatus'')
                    \<and> oget (oget args ''filters'') k = JObj kvs \<longrightarrow>
                list_all (\<lambda>kv. (k @ ''.'' @ fst kv, to_str (snd kv)) \<in> set (serialized (params req)))
                  kvs)"
proof -
  have r: "request_of op h args = Inr req"
    using assms(2) by (auto simp: handler_requests split: if_splits sum.splits)
  have "list_all (query_rule op args req) (query_keys op)
         \<and> ''urlPattern'' \<notin> fst ` set (serialized (params req))
         \<and> ''titlePattern'' \<notin> fst ` set (serialized (params req))"
    using assms(1) r by (rule request_query)
  moreover have "list_all (\<lambda>kv. (k @ ''.'' @ fst kv, to_str (snd kv)) \<in> set (serialized (params req))) kvs"
    if "op = search_webset_items_exa" and "k = ''metadata'' \<or> k = ''enrichmentStatus''"
      and "oget (oget args ''filters'') k = JObj kvs" for k kvs
    using r [unfolded that(1)] that(2,3) by (rule search_dotted)
  ultimately show ?thesis
    by blast
qed

lemma enriched_false_request:
  "snd (handler search_webset_items_exa (example_host (ok titled_page) literal_engine)
          enriched_false_search)
   = [instance_call (example_host (ok titled_page) literal_engine)
        (json_headers (example_host (ok titled_page) literal_engine)) GET
        (items_url (example_host (ok titled_page) literal_engine) (JStr ''ws_1''))
        (URLSearchParams [(''limit'', ''50''), (''hasEnrichedData'', ''false''),
           (''metadata.source'', ''crm'')]) None]"
  by (simp add: handler_requests enriched_false_search_def search_webset_items_request_def
        param_if_def param_if_defined_def toString_def dotted_params_def object_entries_def
        digits.simps)

theorem query_parameters_witness:
  "map (\<lambda>req. serialized (params req))
       (snd (handler search_webset_items_exa (example_host (ok titled_page) literal_engine)
               enriched_false_search))
     = [[(''limit'', ''50''), (''hasEnrichedData'', ''false''), (''metadata.source'', ''crm'')]]
   \<and> list_all (\<lambda>req. list_all (query_rule search_webset_items_exa enriched_false_search req)
                          (query_keys search_webset_items_exa)
                      \<and> ''urlPattern'' \<notin> fst ` set (serialized (params req)))
        (snd (handler search_webset_items_exa (example_host (ok titled_page) literal_engine)
                enriched_false_search))"
proof -
  let ?h = "example_host (ok titled_page) literal_engine"
  let ?req = "instance_call ?h (json_headers ?h) GET (items_url ?h (JStr ''ws_1''))
                (URLSearchParams [(''limit'', ''50''), (''hasEnrichedData'', ''false''),
           (''metadata.source'', ''crm'')]) None"
  have m: "search_webset_items_exa \<in> set list_tools"
    by (simp add: list_tools_def)
  have r: "?req \<in> set (snd (handler search_webset_items_exa ?h enriched_false_search))"
    by (simp add: enriched_false_request)
  show ?thesis
    using query_parameters [OF m r] by (simp add: enriched_false_request)
qed

text \<open>
  Filters the caller supplied that do not reach the query string: an empty \<open>type\<close>, a \<open>limit\<close>
  of zero and a \<open>urlPattern\<close>. The request of this search has no query parameter at all.
\<close>

theorem supplied_filters_not_sent:
  "map (\<lambda>req. serialized (params req))
       (snd (handler search_webset_items_exa (example_host (ok titled_page) literal_engine)
               empty_filters_search))
     = [[]]"
  by (simp add: handler_requests empty_filters_search_def search_webset_items_request_def
        param_if_def param_if_defined_def dotted_params_def instance_call_def)
end
